theory Spec2Isabelle
  imports Main "HOL-Library.Char_ord" "HOL-Library.List_Lexorder" "HOL-Library.Multiset"
    "HOL-Library.Sublist"
begin

section \<open>Native-plane policy generation (preload-generator.js)\<close>

text \<open>
  A normalised package entry of the whitelist configuration. Each field is an array of
  variable names or is missing (\<open>None\<close>), which is what the truthiness tests
  \<^verbatim>\<open>if (packageConfig.allowed)\<close> and \<^verbatim>\<open>if (packageConfig.canWrite)\<close> distinguish: an array,
  even an empty one, is truthy. The configuration object is the list of its entries in
  \<^verbatim>\<open>Object.entries\<close> order.
\<close>

record package_config =
  allowed :: "string list option"
  canWrite :: "string list option"
  canDelete :: "string list option"

type_synonym config = "(string \<times> package_config) list"

text \<open>
  \<^verbatim>\<open>allowedVars.add(envVar)\<close> on a JavaScript \<^verbatim>\<open>Set\<close>: the set keeps insertion order and
  ignores an element it already holds.
\<close>

definition set_add :: "string \<Rightarrow> string list \<Rightarrow> string list" where
  "set_add v acc = (if v \<in> set acc then acc else acc @ [v])"

text \<open>
  One inner \<^verbatim>\<open>for (const envVar of ...)\<close> loop of \<^verbatim>\<open>generatePolicy\<close>. The result \<open>None\<close> is
  the early \<^verbatim>\<open>return '*'\<close>; \<open>Some acc\<close> is the set after the loop has run to its end.
\<close>

fun collect_vars :: "string list \<Rightarrow> string list \<Rightarrow> string list option" where
  "collect_vars [] acc = Some acc"
| "collect_vars (envVar # rest) acc =
     (if envVar = ''*'' then None else collect_vars rest (set_add envVar acc))"

text \<open>
  One guarded block \<^verbatim>\<open>if (packageConfig.f) { for (const envVar of packageConfig.f) ... }\<close>:
  a missing field leaves the set as it is.
\<close>

definition scan_field :: "string list option \<Rightarrow> string list \<Rightarrow> string list option" where
  "scan_field field acc = (case field of None \<Rightarrow> Some acc | Some vs \<Rightarrow> collect_vars vs acc)"

text \<open>
  The outer loop over \<^verbatim>\<open>Object.entries(config)\<close>: the \<^verbatim>\<open>__options__\<close> entry is skipped, then
  the \<^verbatim>\<open>allowed\<close> array and the \<^verbatim>\<open>canWrite\<close> array are scanned in this order. The source
  reads no other field of the entry.
\<close>

fun generatePolicy_loop :: "config \<Rightarrow> string list \<Rightarrow> string list option" where
  "generatePolicy_loop [] acc = Some acc"
| "generatePolicy_loop ((packageName, packageConfig) # rest) acc =
     (if packageName = ''__options__'' then generatePolicy_loop rest acc
      else
        (case scan_field (allowed packageConfig) acc of
           None \<Rightarrow> None
         | Some acc1 \<Rightarrow>
            (case scan_field (canWrite packageConfig) acc1 of
               None \<Rightarrow> None
             | Some acc2 \<Rightarrow> generatePolicy_loop rest acc2)))"

text \<open>\<^verbatim>\<open>Array.prototype.join\<close> with a separator.\<close>

fun join :: "string \<Rightarrow> string list \<Rightarrow> string" where
  "join s [] = []"
| "join s [x] = x"
| "join s (x # y # ys) = x @ s @ join s (y # ys)"

text \<open>
  \<^verbatim>\<open>generatePolicy(config)\<close>. The default \<^verbatim>\<open>sort()\<close> of an array of strings orders them by
  their code units, lexicographically, a proper prefix first: the order of
  \<^typ>\<open>string\<close> here (characters by their code, lists lexicographically). On distinct
  strings this order has one sorted arrangement, so the sorting algorithm does not matter.
\<close>

definition generatePolicy :: "config \<Rightarrow> string" where
  "generatePolicy config =
     (case generatePolicy_loop config [] of
        None \<Rightarrow> ''*''
      | Some allowedVars \<Rightarrow> join '','' (sort allowedVars))"

text \<open>
  The variables a configuration hands to the native plane, as the loop reads them: the
  \<^verbatim>\<open>allowed\<close> and \<^verbatim>\<open>canWrite\<close> arrays of every entry other than \<^verbatim>\<open>__options__\<close>.
\<close>

definition or_empty :: "string list option \<Rightarrow> string list" where
  "or_empty field = (case field of None \<Rightarrow> [] | Some vs \<Rightarrow> vs)"

definition package_entries :: "config \<Rightarrow> (string \<times> package_config) list" where
  "package_entries config = filter (\<lambda>entry. fst entry \<noteq> ''__options__'') config"

definition policy_vars :: "config \<Rightarrow> string list" where
  "policy_vars config =
     concat (map (\<lambda>entry. or_empty (allowed (snd entry)) @ or_empty (canWrite (snd entry)))
       (package_entries config))"

text \<open>
  The specification's reading, in its own words: a package may read, at the runtime level,
  every variable of its \<^verbatim>\<open>allowed\<close>, \<^verbatim>\<open>canWrite\<close> and \<^verbatim>\<open>canDelete\<close> sets, and the native
  allow-set is \<^verbatim>\<open>*\<close> when the sentinel is in any of the three, otherwise the sorted
  comma-separated list of the union of the three.
\<close>

definition readable_vars :: "config \<Rightarrow> string list" where
  "readable_vars config =
     concat (map (\<lambda>entry. or_empty (allowed (snd entry)) @ or_empty (canWrite (snd entry))
                   @ or_empty (canDelete (snd entry)))
       (package_entries config))"

definition claimed_policy :: "config \<Rightarrow> string" where
  "claimed_policy config =
     (if ''*'' \<in> set (readable_vars config) then ''*''
      else join '','' (sort (remdups (readable_vars config))))"

text \<open>The configurations of the specification's scenario 6 and two with a delete-only grant.\<close>

definition scenario6_config :: config where
  "scenario6_config =
     [(''a'', \<lparr>allowed = Some [''X'', ''Y''], canWrite = None, canDelete = None\<rparr>),
      (''b'', \<lparr>allowed = None, canWrite = Some [''Z''], canDelete = None\<rparr>)]"

definition delete_only_config :: config where
  "delete_only_config =
     [(''a'', \<lparr>allowed = Some [''X''], canWrite = Some [], canDelete = Some [''V'']\<rparr>)]"

definition delete_wildcard_config :: config where
  "delete_wildcard_config =
     [(''a'', \<lparr>allowed = Some [''X''], canWrite = Some [], canDelete = Some [''*'']\<rparr>)]"


section \<open>Runtime mediator (lib/proxy.js)\<close>

subsection \<open>Values of the host runtime\<close>

text \<open>
  A property key is a string or a symbol (\<^verbatim>\<open>typeof prop === 'symbol'\<close>); symbols are told
  apart by a number. The second argument of the check function is one of the strings
  \<^verbatim>\<open>'read'\<close>, \<^verbatim>\<open>'write'\<close>, \<^verbatim>\<open>'delete'\<close>.
\<close>

datatype property_key = Str string | Sym nat

datatype operation = Read | Write | Delete

text \<open>
  What the host runtime itself throws: a \<^verbatim>\<open>TypeError\<close>, or an \<^verbatim>\<open>Error\<close> made with
  \<^verbatim>\<open>new Error(message)\<close>. A mediated operation throws one of these or the value the check
  function raised. A call completes by throwing or by returning.
\<close>

datatype host_error = TypeError | Error string

datatype 'e exn = Raised 'e | Host host_error

datatype ('x, 'r) completion = Throw 'x | Return 'r

text \<open>
  The target of the proxy is the original \<^verbatim>\<open>process.env\<close>: an object whose own properties
  are plain data properties (writable, enumerable and configurable), so it is a map from
  keys to values and a missing key reads as \<^verbatim>\<open>undefined\<close> (\<open>None\<close>). The operations below
  are the ones the traps forward to.
\<close>

type_synonym 'v target = "property_key \<rightharpoonup> 'v"

record 'v descriptor =
  d_value :: 'v
  d_writable :: bool
  d_enumerable :: bool
  d_configurable :: bool

definition target_get :: "'v target \<Rightarrow> property_key \<Rightarrow> 'v option" where
  "target_get t p = t p"

definition target_set :: "'v target \<Rightarrow> property_key \<Rightarrow> 'v \<Rightarrow> 'v target" where
  "target_set t p v = t(p \<mapsto> v)"

definition target_has :: "'v target \<Rightarrow> property_key \<Rightarrow> bool" where
  "target_has t p = (t p \<noteq> None)"

definition target_delete :: "'v target \<Rightarrow> property_key \<Rightarrow> 'v target" where
  "target_delete t p = t(p := None)"

definition target_getOwnPropertyDescriptor :: "'v target \<Rightarrow> property_key \<Rightarrow> 'v descriptor option" where
  "target_getOwnPropertyDescriptor t p =
     map_option (\<lambda>v. \<lparr>d_value = v, d_writable = True, d_enumerable = True,
                       d_configurable = True\<rparr>) (t p)"

definition target_defineProperty :: "'v target \<Rightarrow> property_key \<Rightarrow> 'v descriptor \<Rightarrow> 'v target" where
  "target_defineProperty t p d = t(p \<mapsto> d_value d)"

text \<open>
  What a mediated operation can change: the target, the state the check function owns
  (its statistics and caches; it is not handed the target), and a history of the calls
  made to the check function, kept so that "the check was (not) invoked" can be stated.
\<close>

record ('v, 'c) world =
  store :: "'v target"
  checker :: 'c
  check_log :: "(string \<times> operation) list"

type_synonym ('e, 'c) check_fn = "string \<Rightarrow> operation \<Rightarrow> 'c \<Rightarrow> 'e option \<times> 'c"

subsection \<open>Module state\<close>

text \<open>
  \<^verbatim>\<open>process.env\<close> is bound either to the original object or to a proxy made over what it
  was bound to.
\<close>

datatype env_ref = OriginalObject | ProxyOver env_ref

record proxy_options =
  protectWrites :: bool
  protectDeletes :: bool
  protectEnumeration :: bool

text \<open>
  The \<^verbatim>\<open>options\<close> argument of \<^verbatim>\<open>createEnvProxy\<close>: a field is \<open>Some b\<close> for a boolean \<open>b\<close>
  and \<open>None\<close> when it is missing; the source tests \<^verbatim>\<open>options.f !== false\<close>.
\<close>

record raw_options =
  raw_protectWrites :: "bool option"
  raw_protectDeletes :: "bool option"
  raw_protectEnumeration :: "bool option"

text \<open>
  The module-level variables of proxy.js, with the global binding \<^verbatim>\<open>process.env\<close> that the
  module assigns. \<open>None\<close> is \<^verbatim>\<open>null\<close>.
\<close>

record ('e, 'c) proxy_state =
  originalEnv :: "env_ref option"
  proxyEnv :: "env_ref option"
  isEnabled :: bool
  checkAccessFn :: "('e, 'c) check_fn option"
  filterKeysFn :: "(property_key list \<Rightarrow> property_key list option) option"
  proxyOptions :: "proxy_options option"
  proxyInstalledAt :: "nat option"
  process_env :: env_ref

definition initial_proxy_state :: "('e, 'c) proxy_state" where
  "initial_proxy_state =
     \<lparr>originalEnv = None, proxyEnv = None, isEnabled = False, checkAccessFn = None,
      filterKeysFn = None, proxyOptions = None, proxyInstalledAt = None,
      process_env = OriginalObject\<rparr>"

definition not_false :: "bool option \<Rightarrow> bool" where
  "not_false b = (b \<noteq> Some False)"

text \<open>
  \<^verbatim>\<open>createEnvProxy(checkFn, options)\<close>; \<open>now\<close> is the value of \<^verbatim>\<open>Date.now()\<close>.
\<close>

definition createEnvProxy ::
  "('e, 'c) check_fn option \<Rightarrow> raw_options \<Rightarrow> nat \<Rightarrow> ('e, 'c) proxy_state \<Rightarrow>
     ('e exn, ('e, 'c) proxy_state) completion" where
  "createEnvProxy checkFn options now s =
     (if proxyEnv s \<noteq> None then Throw (Host (Error ''strictenv: Proxy already created''))
      else Return (s\<lparr>checkAccessFn := checkFn,
                     proxyOptions := Some \<lparr>protectWrites = not_false (raw_protectWrites options),
                                            protectDeletes = not_false (raw_protectDeletes options),
                                            protectEnumeration =
                                              not_false (raw_protectEnumeration options)\<rparr>,
                     originalEnv := Some (process_env s),
                     proxyEnv := Some (ProxyOver (process_env s)),
                     process_env := ProxyOver (process_env s),
                     proxyInstalledAt := Some now\<rparr>))"

definition enable :: "('e, 'c) proxy_state \<Rightarrow> ('e, 'c) proxy_state" where
  "enable s = s\<lparr>isEnabled := True\<rparr>"

definition disable :: "('e, 'c) proxy_state \<Rightarrow> ('e, 'c) proxy_state" where
  "disable s = s\<lparr>isEnabled := False\<rparr>"

definition restore :: "('e, 'c) proxy_state \<Rightarrow> ('e, 'c) proxy_state" where
  "restore s =
     (case originalEnv s of
        None \<Rightarrow> s
      | Some original \<Rightarrow>
          s\<lparr>process_env := original, isEnabled := False, proxyEnv := None,
            checkAccessFn := None, filterKeysFn := None, proxyOptions := None\<rparr>)"

definition setFilterKeysFn ::
  "(property_key list \<Rightarrow> property_key list option) option \<Rightarrow> ('e, 'c) proxy_state \<Rightarrow> ('e, 'c) proxy_state" where
  "setFilterKeysFn filterFn s = s\<lparr>filterKeysFn := filterFn\<rparr>"


subsection \<open>The traps of the proxy handler\<close>

text \<open>A call \<^verbatim>\<open>checkAccessFn(name, operation)\<close>: it may raise, and it is recorded.\<close>

definition call_check ::
  "('e, 'c) check_fn \<Rightarrow> string \<Rightarrow> operation \<Rightarrow> ('v, 'c) world \<Rightarrow>
     ('e exn, unit) completion \<times> ('v, 'c) world" where
  "call_check f name operation w =
     (case f name operation (checker w) of
        (verdict, c') \<Rightarrow>
          ((case verdict of Some e \<Rightarrow> Throw (Raised e) | None \<Rightarrow> Return ()),
           w\<lparr>checker := c', check_log := check_log w @ [(name, operation)]\<rparr>))"

text \<open>Statement sequencing: what follows a statement runs only if it did not throw.\<close>

definition and_then ::
  "('x, unit) completion \<times> 'w \<Rightarrow> ('w \<Rightarrow> ('x, 'r) completion \<times> 'w) \<Rightarrow> ('x, 'r) completion \<times> 'w" where
  "and_then first rest = (case first of (Throw x, w) \<Rightarrow> (Throw x, w) | (Return _, w) \<Rightarrow> rest w)"

text \<open>
  The guard \<^verbatim>\<open>if (isEnabled && checkAccessFn && typeof prop === 'string') checkAccessFn(prop, 'read')\<close>
  of the \<^verbatim>\<open>has\<close> and \<^verbatim>\<open>getOwnPropertyDescriptor\<close> traps.
\<close>

definition read_guard ::
  "('e, 'c) proxy_state \<Rightarrow> property_key \<Rightarrow> ('v, 'c) world \<Rightarrow> ('e exn, unit) completion \<times> ('v, 'c) world" where
  "read_guard s p w =
     (if isEnabled s then
        (case checkAccessFn s of
           None \<Rightarrow> (Return (), w)
         | Some f \<Rightarrow> (case p of Str name \<Rightarrow> call_check f name Read w | Sym _ \<Rightarrow> (Return (), w)))
      else (Return (), w))"

text \<open>
  The guard of the \<^verbatim>\<open>set\<close>, \<^verbatim>\<open>deleteProperty\<close> and \<^verbatim>\<open>defineProperty\<close> traps:
  \<^verbatim>\<open>if (isEnabled && checkAccessFn && proxyOptions.protectX) { if (typeof prop === 'string') checkAccessFn(prop, op) }\<close>.
  The condition is evaluated left to right, so \<^verbatim>\<open>proxyOptions.protectX\<close> is read only when
  the first two hold; reading it from \<^verbatim>\<open>null\<close> throws a \<^verbatim>\<open>TypeError\<close>.
\<close>

definition option_guard ::
  "('e, 'c) proxy_state \<Rightarrow> (proxy_options \<Rightarrow> bool) \<Rightarrow> operation \<Rightarrow> property_key \<Rightarrow> ('v, 'c) world \<Rightarrow>
     ('e exn, unit) completion \<times> ('v, 'c) world" where
  "option_guard s protect operation p w =
     (if isEnabled s then
        (case checkAccessFn s of
           None \<Rightarrow> (Return (), w)
         | Some f \<Rightarrow>
            (case proxyOptions s of
               None \<Rightarrow> (Throw (Host TypeError), w)
             | Some opts \<Rightarrow>
                 if protect opts then
                   (case p of Str name \<Rightarrow> call_check f name operation w | Sym _ \<Rightarrow> (Return (), w))
                 else (Return (), w)))
      else (Return (), w))"

text \<open>
  The \<^verbatim>\<open>get\<close> trap: a symbol and the name \<^verbatim>\<open>inspect\<close> are read straight from the target; any
  other name is checked as a read when enforcement is on.
\<close>

definition trap_get ::
  "('e, 'c) proxy_state \<Rightarrow> property_key \<Rightarrow> ('v, 'c) world \<Rightarrow>
     ('e exn, 'v option) completion \<times> ('v, 'c) world" where
  "trap_get s p w =
     (case p of
        Sym _ \<Rightarrow> (Return (target_get (store w) p), w)
      | Str name \<Rightarrow>
          if name = ''inspect'' then (Return (target_get (store w) p), w)
          else
            and_then
              (if isEnabled s then
                 (case checkAccessFn s of
                    None \<Rightarrow> (Return (), w)
                  | Some f \<Rightarrow> call_check f name Read w)
               else (Return (), w))
              (\<lambda>w'. (Return (target_get (store w') p), w')))"

definition trap_set ::
  "('e, 'c) proxy_state \<Rightarrow> property_key \<Rightarrow> 'v \<Rightarrow> ('v, 'c) world \<Rightarrow>
     ('e exn, bool) completion \<times> ('v, 'c) world" where
  "trap_set s p v w =
     and_then (option_guard s protectWrites Write p w)
       (\<lambda>w'. (Return True, w'\<lparr>store := target_set (store w') p v\<rparr>))"

definition trap_has ::
  "('e, 'c) proxy_state \<Rightarrow> property_key \<Rightarrow> ('v, 'c) world \<Rightarrow>
     ('e exn, bool) completion \<times> ('v, 'c) world" where
  "trap_has s p w =
     and_then (read_guard s p w) (\<lambda>w'. (Return (target_has (store w') p), w'))"

definition trap_deleteProperty ::
  "('e, 'c) proxy_state \<Rightarrow> property_key \<Rightarrow> ('v, 'c) world \<Rightarrow>
     ('e exn, bool) completion \<times> ('v, 'c) world" where
  "trap_deleteProperty s p w =
     and_then (option_guard s protectDeletes Delete p w)
       (\<lambda>w'. (Return True, w'\<lparr>store := target_delete (store w') p\<rparr>))"

definition trap_getOwnPropertyDescriptor ::
  "('e, 'c) proxy_state \<Rightarrow> property_key \<Rightarrow> ('v, 'c) world \<Rightarrow>
     ('e exn, 'v descriptor option) completion \<times> ('v, 'c) world" where
  "trap_getOwnPropertyDescriptor s p w =
     and_then (read_guard s p w)
       (\<lambda>w'. (Return (target_getOwnPropertyDescriptor (store w') p), w'))"

text \<open>
  The \<^verbatim>\<open>defineProperty\<close> trap returns what \<^verbatim>\<open>Object.defineProperty\<close> returns, the target
  itself, which the proxy reads as success.
\<close>

definition trap_defineProperty ::
  "('e, 'c) proxy_state \<Rightarrow> property_key \<Rightarrow> 'v descriptor \<Rightarrow> ('v, 'c) world \<Rightarrow>
     ('e exn, bool) completion \<times> ('v, 'c) world" where
  "trap_defineProperty s p d w =
     and_then (option_guard s protectWrites Write p w)
       (\<lambda>w'. (Return True, w'\<lparr>store := target_defineProperty (store w') p d\<rparr>))"

text \<open>
  The two variables \<^verbatim>\<open>checkAccessFn\<close> and \<^verbatim>\<open>proxyOptions\<close> are assigned together: both in
  \<^verbatim>\<open>createEnvProxy\<close>, both to \<^verbatim>\<open>null\<close> in \<^verbatim>\<open>restore\<close>, and nowhere else.
\<close>

definition options_present :: "('e, 'c) proxy_state \<Rightarrow> bool" where
  "options_present s = (if checkAccessFn s = None then True else proxyOptions s \<noteq> None)"


subsection \<open>Concrete check functions and states\<close>

text \<open>
  Two check functions that count their calls in the state they own: one raises on every
  access (the error carries the variable's name), one never raises. \<open>enforcing f\<close> is the
  module state after \<^verbatim>\<open>createEnvProxy(f)\<close> with default options and \<^verbatim>\<open>enable()\<close>.
\<close>

definition deny_all :: "(string, nat) check_fn" where
  "deny_all name operation calls = (Some name, Suc calls)"

definition allow_all :: "(string, nat) check_fn" where
  "allow_all name operation calls = (None, Suc calls)"

definition default_options :: raw_options where
  "default_options =
     \<lparr>raw_protectWrites = None, raw_protectDeletes = None, raw_protectEnumeration = None\<rparr>"

definition enforcing :: "(string, nat) check_fn \<Rightarrow> (string, nat) proxy_state" where
  "enforcing f =
     (case createEnvProxy (Some f) default_options 0 initial_proxy_state of
        Return s \<Rightarrow> enable s
      | Throw _ \<Rightarrow> initial_proxy_state)"

definition sample_world :: "(string, nat) world" where
  "sample_world =
     \<lparr>store = [Str ''SECRET'' \<mapsto> ''x'', Sym 0 \<mapsto> ''tag''], checker = 0, check_log = []\<rparr>"

definition sample_descriptor :: "string descriptor" where
  "sample_descriptor =
     \<lparr>d_value = ''y'', d_writable = True, d_enumerable = True, d_configurable = True\<rparr>"


section \<open>Native bridge (lib/native-bridge.js)\<close>

subsection \<open>Error objects and template strings\<close>

text \<open>
  An \<^verbatim>\<open>Error\<close> object, by its \<^verbatim>\<open>message\<close> and its \<^verbatim>\<open>code\<close> property (\<open>None\<close> when it has
  none). \<^verbatim>\<open>new Error(text)\<close> makes an object with the message and no code; the bridge
  never assigns a code to an error.
\<close>

record js_error =
  e_message :: string
  e_code :: "string option"

definition new_Error :: "string \<Rightarrow> js_error" where
  "new_Error text = \<lparr>e_message = text, e_code = None\<rparr>"

text \<open>
  Values inside a template string: the decimal digits of a number, and \<^verbatim>\<open>undefined\<close> for a
  missing value.
\<close>

fun string_of_nat :: "nat \<Rightarrow> string" where
  "string_of_nat n =
     (if n < 10 then [char_of (48 + n)]
      else string_of_nat (n div 10) @ [char_of (48 + n mod 10)])"

declare string_of_nat.simps [simp del]

definition template_text :: "string option \<Rightarrow> string" where
  "template_text v = (case v of None \<Rightarrow> ''undefined'' | Some t \<Rightarrow> t)"

definition template_number :: "nat option \<Rightarrow> string" where
  "template_number v = (case v of None \<Rightarrow> ''undefined'' | Some n \<Rightarrow> string_of_nat n)"

subsection \<open>The files and libraries the bridge reads\<close>

text \<open>
  The \<^verbatim>\<open>addon\<close> record of the manifest document. A field is \<open>None\<close> when the document has
  no such field (it reads as \<^verbatim>\<open>undefined\<close>). The manifest itself may lack the record.
\<close>

record manifest_addon =
  m_hash :: "string option"
  m_algorithm :: "string option"
  m_size :: "nat option"

record manifest =
  m_addon :: "manifest_addon option"

text \<open>
  What the caller-identification addon exports, as far as stack-parser.js uses it, and
  whether its \<^verbatim>\<open>initialize\<close> throws (and what).
\<close>

record native_caller_info =
  n_packageName :: string
  n_fileName :: string
  n_lineNumber :: "nat option"
  n_columnNumber :: "nat option"
  n_functionName :: "string option"
  n_isEval :: "bool option"
  n_isConstructor :: "bool option"

record native_addon =
  addon_getCallerInfo :: "nat \<Rightarrow> native_caller_info option"
  addon_getAsyncContext :: "string option"
  addon_initialize :: "js_error option"

text \<open>
  The environment of the loader. A call of the file system or of the hashing library
  that throws is \<open>Inl message\<close>, with the message of the exception, which is all the
  verifier reads of it; a \<^verbatim>\<open>require\<close> that throws is \<open>Inl\<close> of the exception, which the
  loader keeps.
  \<^item> \<open>addon_exists\<close>, \<open>manifest_exists\<close>: \<^verbatim>\<open>fs.existsSync\<close> of the two paths;
  \<^item> \<open>manifest_content\<close>: \<^verbatim>\<open>JSON.parse(fs.readFileSync(manifestPath, 'utf8'))\<close>;
  \<^item> \<open>addon_content\<close>: \<^verbatim>\<open>fs.readFileSync(addonPath)\<close>;
  \<^item> \<open>digest_hex algorithm data\<close>: \<^verbatim>\<open>crypto.createHash(algorithm).update(data).digest('hex')\<close>;
  \<^item> \<open>addon_size\<close>: \<^verbatim>\<open>fs.statSync(addonPath).size\<close>;
  \<^item> \<open>require_addon\<close>: \<^verbatim>\<open>require('../build/Release/dotnope_native.node')\<close>.
\<close>

record addon_files =
  addon_exists :: bool
  manifest_exists :: bool
  manifest_content :: "string + manifest"
  addon_content :: "string + string"
  digest_hex :: "string \<Rightarrow> string \<Rightarrow> string + string"
  addon_size :: "string + nat"
  require_addon :: "js_error + native_addon"

subsection \<open>Integrity verification\<close>

text \<open>
  The two \<^verbatim>\<open>Error\<close> objects of \<^verbatim>\<open>verifyAddonIntegrity\<close>, with the messages their template
  strings build from the manifest's value and the value found.
\<close>

definition hash_mismatch_error :: "string option \<Rightarrow> string \<Rightarrow> js_error" where
  "hash_mismatch_error expected actualHash =
     new_Error (''Native addon integrity check failed!'' @ [CHR 0x0A] @
                ''Expected: '' @ template_text expected @ [CHR 0x0A] @
                ''Got: '' @ actualHash @ [CHR 0x0A] @
                ''The addon may have been tampered with or rebuilt.'')"

definition size_mismatch_error :: "nat option \<Rightarrow> nat \<Rightarrow> js_error" where
  "size_mismatch_error expected actualSize =
     new_Error (''Native addon size mismatch!'' @ [CHR 0x0A] @
                ''Expected: '' @ template_number expected @ '' bytes'' @ [CHR 0x0A] @
                ''Got: '' @ string_of_nat actualSize @ '' bytes'')"

record integrity_result =
  verified :: bool
  warning :: "string option"
  error :: "js_error option"

definition warning_only :: "string \<Rightarrow> integrity_result" where
  "warning_only message =
     \<lparr>verified = False,
      warning = Some (''Could not verify addon integrity: '' @ message),
      error = None\<rparr>"

text \<open>\<^verbatim>\<open>manifest.addon.algorithm || 'sha256'\<close>: a missing or empty name gives the default.\<close>

definition algorithm_or_default :: "string option \<Rightarrow> string" where
  "algorithm_or_default a =
     (case a of None \<Rightarrow> ''sha256'' | Some name \<Rightarrow> if name = [] then ''sha256'' else name)"

text \<open>
  \<^verbatim>\<open>verifyAddonIntegrity(addonPath)\<close>. Everything after the existence test runs inside
  \<^verbatim>\<open>try\<close>, in the order manifest, addon file, \<^verbatim>\<open>manifest.addon\<close> (a \<^verbatim>\<open>TypeError\<close> when the
  record is missing), digest, file size; the \<^verbatim>\<open>catch\<close> turns any exception into a warning.
\<close>

definition verifyAddonIntegrity :: "addon_files \<Rightarrow> integrity_result" where
  "verifyAddonIntegrity files =
     (if \<not> manifest_exists files then
        \<lparr>verified = False,
         warning = Some ''No addon-manifest.json found. Addon integrity cannot be verified.'',
         error = None\<rparr>
      else
        (case manifest_content files of
           Inl message \<Rightarrow> warning_only message
         | Inr doc \<Rightarrow>
            (case addon_content files of
               Inl message \<Rightarrow> warning_only message
             | Inr addonBuffer \<Rightarrow>
                (case m_addon doc of
                   None \<Rightarrow> warning_only ''Cannot read properties of undefined''
                 | Some entry \<Rightarrow>
                    (case digest_hex files (algorithm_or_default (m_algorithm entry)) addonBuffer of
                       Inl message \<Rightarrow> warning_only message
                     | Inr actualHash \<Rightarrow>
                         if Some actualHash \<noteq> m_hash entry then
                           \<lparr>verified = False, warning = None,
                            error = Some (hash_mismatch_error (m_hash entry) actualHash)\<rparr>
                         else
                           (case addon_size files of
                              Inl message \<Rightarrow> warning_only message
                            | Inr actualSize \<Rightarrow>
                                if Some actualSize \<noteq> m_size entry then
                                  \<lparr>verified = False, warning = None,
                                   error = Some (size_mismatch_error (m_size entry) actualSize)\<rparr>
                                else \<lparr>verified = True, warning = None, error = None\<rparr>))))))"

subsection \<open>Loading the addon\<close>

text \<open>
  The module's variables. \<^verbatim>\<open>initializationError\<close> becomes
  \<^verbatim>\<open>new Error('Native addon not built')\<close>, the integrity error, or the exception caught
  around \<^verbatim>\<open>require\<close> and \<^verbatim>\<open>native.initialize\<close>.
\<close>

record bridge_state =
  native :: "native_addon option"
  nativeAvailable :: bool
  initializationError :: "js_error option"
  integrityVerified :: bool
  integrityError :: "js_error option"

definition initial_bridge_state :: bridge_state where
  "initial_bridge_state =
     \<lparr>native = None, nativeAvailable = False, initializationError = None,
      integrityVerified = False, integrityError = None\<rparr>"

definition load_failed :: "js_error \<Rightarrow> bridge_state \<Rightarrow> bool \<times> bridge_state" where
  "load_failed err b =
     (False, b\<lparr>initializationError := Some err, native := None, nativeAvailable := False\<rparr>)"

definition loadNativeAddon :: "addon_files \<Rightarrow> bridge_state \<Rightarrow> bool \<times> bridge_state" where
  "loadNativeAddon files b =
     (if native b \<noteq> None \<or> initializationError b \<noteq> None then (nativeAvailable b, b)
      else if \<not> addon_exists files then
        (False, b\<lparr>initializationError := Some (new_Error ''Native addon not built''),
                   nativeAvailable := False\<rparr>)
      else
        (let integrityResult = verifyAddonIntegrity files;
             b1 = b\<lparr>integrityVerified := verified integrityResult\<rparr>
         in case error integrityResult of
              Some e \<Rightarrow>
                (False, b1\<lparr>integrityError := Some e,
                           initializationError := Some e,
                           nativeAvailable := False\<rparr>)
            | None \<Rightarrow>
                (case require_addon files of
                   Inl err \<Rightarrow> load_failed err b1
                 | Inr addon \<Rightarrow>
                    (case addon_initialize addon of
                       Some err \<Rightarrow>
                         load_failed err (b1\<lparr>native := Some addon, nativeAvailable := True\<rparr>)
                     | None \<Rightarrow> (True, b1\<lparr>native := Some addon, nativeAvailable := True\<rparr>)))))"

definition isNativeAvailable :: "addon_files \<Rightarrow> bridge_state \<Rightarrow> bool \<times> bridge_state" where
  "isNativeAvailable files b =
     (if native b = None then
        (case loadNativeAddon files b of (_, b') \<Rightarrow> (nativeAvailable b', b'))
      else (nativeAvailable b, b))"

text \<open>
  \<^verbatim>\<open>getCallerInfo(skipFrames)\<close> and \<^verbatim>\<open>getAsyncContext()\<close>. After \<^verbatim>\<open>isNativeAvailable()\<close> has
  returned true the addon is set; were it \<^verbatim>\<open>null\<close>, the method call would throw a
  \<^verbatim>\<open>TypeError\<close>.
\<close>

definition getCallerInfo ::
  "addon_files \<Rightarrow> nat \<Rightarrow> bridge_state \<Rightarrow>
     (host_error, native_caller_info option) completion \<times> bridge_state" where
  "getCallerInfo files skipFrames b =
     (case isNativeAvailable files b of
        (available, b') \<Rightarrow>
          if \<not> available then (Return None, b')
          else (case native b' of
                  None \<Rightarrow> (Throw TypeError, b')
                | Some addon \<Rightarrow> (Return (addon_getCallerInfo addon skipFrames), b')))"

definition getAsyncContext ::
  "addon_files \<Rightarrow> bridge_state \<Rightarrow> (host_error, string option) completion \<times> bridge_state" where
  "getAsyncContext files b =
     (case isNativeAvailable files b of
        (available, b') \<Rightarrow>
          if \<not> available then (Return None, b')
          else (case native b' of
                  None \<Rightarrow> (Throw TypeError, b')
                | Some addon \<Rightarrow> (Return (addon_getAsyncContext addon), b')))"

text \<open>
  \<^verbatim>\<open>getSecurityStatus()\<close> returns the four fields \<^verbatim>\<open>nativeAvailable\<close>, \<^verbatim>\<open>integrityVerified\<close>,
  \<^verbatim>\<open>hasIntegrityError\<close> and \<^verbatim>\<open>initializationError\<close>, the last being the error's message or
  \<^verbatim>\<open>null\<close>.
\<close>

record security_status =
  status_nativeAvailable :: bool
  status_integrityVerified :: bool
  status_hasIntegrityError :: bool
  status_initializationError :: "string option"

definition getSecurityStatus :: "bridge_state \<Rightarrow> security_status" where
  "getSecurityStatus b =
     \<lparr>status_nativeAvailable = nativeAvailable b,
      status_integrityVerified = integrityVerified b,
      status_hasIntegrityError = (integrityError b \<noteq> None),
      status_initializationError = map_option e_message (initializationError b)\<rparr>"

definition getIntegrityError :: "bridge_state \<Rightarrow> js_error option" where
  "getIntegrityError b = integrityError b"

text \<open>
  The state of a bridge that has refused or failed to load: no addon, and an error
  recorded, so that \<^verbatim>\<open>loadNativeAddon\<close> returns at its first test from then on.
\<close>

definition refused :: "bridge_state \<Rightarrow> bool" where
  "refused b = (native b = None \<and> \<not> nativeAvailable b \<and> initializationError b \<noteq> None)"

text \<open>
  Further calls of \<^verbatim>\<open>isNativeAvailable()\<close>, one for each element of the list: the files
  as they are at that call.
\<close>

fun asked_again :: "addon_files list \<Rightarrow> bridge_state \<Rightarrow> bridge_state" where
  "asked_again [] b = b"
| "asked_again (files # later) b = asked_again later (snd (isNativeAvailable files b))"


subsection \<open>Concrete files\<close>

text \<open>
  An addon, a stand-in for the hashing library that knows one algorithm, and four
  environments: the addon file does not match the manifest's hash; it matches the hash
  but not the size; the manifest cannot be parsed; the file has not the manifest's size
  and the manifest names an algorithm the library does not know.
\<close>

definition sample_addon :: native_addon where
  "sample_addon =
     \<lparr>addon_getCallerInfo =
        (\<lambda>skip. Some \<lparr>n_packageName = ''from-native'', n_fileName = ''/app/x.js'',
                       n_lineNumber = Some 1, n_columnNumber = Some 1,
                       n_functionName = None, n_isEval = None, n_isConstructor = None\<rparr>),
      addon_getAsyncContext = None,
      addon_initialize = None\<rparr>"

definition toy_digest :: "string \<Rightarrow> string \<Rightarrow> string + string" where
  "toy_digest algorithm content =
     (if algorithm = ''sha256'' then Inr (''h:'' @ content)
      else Inl ''Digest method not supported'')"

definition tampered_files :: addon_files where
  "tampered_files =
     \<lparr>addon_exists = True, manifest_exists = True,
      manifest_content =
        Inr \<lparr>m_addon = Some \<lparr>m_hash = Some ''h:good'', m_algorithm = None, m_size = Some 4\<rparr>\<rparr>,
      addon_content = Inr ''evil'',
      digest_hex = toy_digest,
      addon_size = Inr 4,
      require_addon = Inr sample_addon\<rparr>"

definition resized_files :: addon_files where
  "resized_files =
     tampered_files\<lparr>addon_content := Inr ''good'', addon_size := Inr 5\<rparr>"

definition unsupported_algorithm_files :: addon_files where
  "unsupported_algorithm_files =
     resized_files\<lparr>manifest_content :=
       Inr \<lparr>m_addon = Some \<lparr>m_hash = Some ''h:good'', m_algorithm = Some ''md999'',
                             m_size = Some 4\<rparr>\<rparr>\<rparr>"



section \<open>Caller identification (lib/stack-parser.js)\<close>

subsection \<open>Strings and paths\<close>

text \<open>
  \<^verbatim>\<open>s.startsWith(t)\<close>, \<^verbatim>\<open>s.endsWith(t)\<close> and \<^verbatim>\<open>s.includes(t)\<close> are \<^term>\<open>prefix t s\<close>,
  \<^term>\<open>suffix t s\<close> and \<^term>\<open>sublist t s\<close>. \<^verbatim>\<open>s.lastIndexOf(t)\<close> is the greatest index at
  which \<open>t\<close> occurs in \<open>s\<close>, and \<open>None\<close> stands for \<^verbatim>\<open>-1\<close>.
\<close>

definition occurs_at :: "string \<Rightarrow> string \<Rightarrow> nat \<Rightarrow> bool" where
  "occurs_at s t i = (i + length t \<le> length s \<and> take (length t) (drop i s) = t)"

text \<open>The search of \<^verbatim>\<open>lastIndexOf\<close>: from index \<open>i\<close> down to \<open>0\<close>, the first index that matches.\<close>

fun last_index_from :: "string \<Rightarrow> string \<Rightarrow> nat \<Rightarrow> nat option" where
  "last_index_from s t 0 = (if occurs_at s t 0 then Some 0 else None)"
| "last_index_from s t (Suc i) =
     (if occurs_at s t (Suc i) then Some (Suc i) else last_index_from s t i)"

definition lastIndexOf :: "string \<Rightarrow> string \<Rightarrow> nat option" where
  "lastIndexOf s t = last_index_from s t (length s)"

text \<open>\<^verbatim>\<open>s.split(c)\<close> for a one-character separator: never empty, \<^verbatim>\<open>''.split(c)\<close> is \<^verbatim>\<open>['']\<close>.\<close>

fun split :: "char \<Rightarrow> string \<Rightarrow> string list" where
  "split c [] = [[]]"
| "split c (x # xs) =
     (if x = c then [] # split c xs
      else (case split c xs of
              [] \<Rightarrow> [[x]]
            | part # parts \<Rightarrow> (x # part) # parts))"

text \<open>An array element inside a template string: a missing one prints as \<^verbatim>\<open>undefined\<close>.\<close>

definition element_text :: "string list \<Rightarrow> nat \<Rightarrow> string" where
  "element_text parts i = (if i < length parts then parts ! i else ''undefined'')"

text \<open>
  The path library of the host and the one file-system read of \<^verbatim>\<open>isInternalFile\<close>:
  \<^verbatim>\<open>path.sep\<close>, \<^verbatim>\<open>path.normalize\<close>, \<^verbatim>\<open>path.dirname\<close>, and the \<^verbatim>\<open>name\<close> field of the
  \<^verbatim>\<open>package.json\<close> in a directory (\<open>None\<close> when reading or parsing it throws, or when it has
  no name).
\<close>

record path_lib =
  path_sep :: char
  path_normalize :: "string \<Rightarrow> string"
  path_dirname :: "string \<Rightarrow> string"
  package_json_name :: "string \<Rightarrow> string option"

text \<open>
  A POSIX instance for concrete runs, on absolute paths that are already normalised (no
  \<^verbatim>\<open>.\<close>, \<^verbatim>\<open>..\<close> or doubled separator), where \<^verbatim>\<open>path.normalize\<close> changes nothing.
\<close>

definition posix_paths :: path_lib where
  "posix_paths =
     \<lparr>path_sep = CHR ''/'',
      path_normalize = (\<lambda>p. p),
      path_dirname = (\<lambda>p. rev (tl (dropWhile (\<lambda>c. c \<noteq> CHR ''/'') (rev p)))),
      package_json_name = (\<lambda>dir. None)\<rparr>"

subsection \<open>Package names from file paths\<close>

definition node_modules_marker :: "path_lib \<Rightarrow> string" where
  "node_modules_marker lib = [path_sep lib] @ ''node_modules'' @ [path_sep lib]"

text \<open>
  Lines 314 to 339 of \<^verbatim>\<open>extractPackageName\<close>: the name computed for a path that is not in
  the cache.
\<close>

definition computePackageName :: "path_lib \<Rightarrow> string \<Rightarrow> string" where
  "computePackageName lib filePath =
     (let normalized = path_normalize lib filePath in
      case lastIndexOf normalized (node_modules_marker lib) of
        None \<Rightarrow> ''__main__''
      | Some nodeModulesIndex \<Rightarrow>
          (let afterNodeModules =
                 drop (nodeModulesIndex + length (node_modules_marker lib)) normalized;
               parts = split (path_sep lib) afterNodeModules
           in if prefix ''@'' (element_text parts 0)
              then element_text parts 0 @ ''/'' @ element_text parts 1
              else element_text parts 0))"

text \<open>\<^verbatim>\<open>extractPackageName(filePath)\<close> with the module's \<^verbatim>\<open>packageCache\<close>.\<close>

definition extractPackageName ::
  "path_lib \<Rightarrow> string \<Rightarrow> (string \<rightharpoonup> string) \<Rightarrow> string \<times> (string \<rightharpoonup> string)" where
  "extractPackageName lib filePath cache =
     (case cache filePath of
        Some cached \<Rightarrow> (cached, cache)
      | None \<Rightarrow>
          (computePackageName lib filePath,
           cache(filePath \<mapsto> computePackageName lib filePath)))"

text \<open>
  The cache is private to the module and written by \<^verbatim>\<open>extractPackageName\<close> only, so every
  entry is the name computed for its path.
\<close>

definition cache_sound :: "path_lib \<Rightarrow> (string \<rightharpoonup> string) \<Rightarrow> bool" where
  "cache_sound lib cache =
     (\<forall>filePath. cache filePath = None \<or> cache filePath = Some (computePackageName lib filePath))"

text \<open>
  The path component that starts a string: up to the first separator. The component after
  it, when there is one, starts behind that separator.
\<close>

definition first_component :: "char \<Rightarrow> string \<Rightarrow> string" where
  "first_component c s = takeWhile (\<lambda>x. x \<noteq> c) s"

definition second_component :: "char \<Rightarrow> string \<Rightarrow> string option" where
  "second_component c s =
     (case dropWhile (\<lambda>x. x \<noteq> c) s of
        [] \<Rightarrow> None
      | _ # rest \<Rightarrow> Some (first_component c rest))"

subsection \<open>Recognising the mediator's own files and generated code\<close>

definition INTERNAL_PATHS :: "string list" where
  "INTERNAL_PATHS =
     [''lib/proxy.js'', ''lib/stack-parser.js'', ''lib/dotnope.js'', ''lib/config-loader.js'',
      ''lib/dependency-resolver.js'']"

definition EVAL_FUNCTION_NAMES :: "string list" where
  "EVAL_FUNCTION_NAMES = [''eval'', ''Function'', ''anonymous'']"

text \<open>
  The four patterns of \<^verbatim>\<open>EVAL_FILENAME_PATTERNS\<close> are anchored at the start of the name and
  have no other operator, so each is a prefix test.
\<close>

definition EVAL_FILENAME_PREFIXES :: "string list" where
  "EVAL_FILENAME_PREFIXES = [''eval at'', ''[eval]'', ''<anonymous>'', ''evalmachine.'']"

text \<open>A call site of the captured stack, by what its accessors return.\<close>

record frame =
  f_fileName :: "string option"
  f_lineNumber :: "nat option"
  f_columnNumber :: "nat option"
  f_functionName :: "string option"
  f_isEval :: bool
  f_evalOrigin :: "string option"
  f_isConstructor :: bool

text \<open>\<^verbatim>\<open>x || d\<close> on a string that may be missing: a missing or empty string gives \<open>d\<close>.\<close>

definition or_default :: "string option \<Rightarrow> string \<Rightarrow> string" where
  "or_default x d = (case x of None \<Rightarrow> d | Some v \<Rightarrow> if v = [] then d else v)"

definition detectEvalContext :: "frame \<Rightarrow> bool" where
  "detectEvalContext fr =
     (let funcName = or_default (f_functionName fr) [];
          fileName = or_default (f_fileName fr) []
      in if f_isEval fr then True
         else if or_default (f_evalOrigin fr) [] \<noteq> [] then True
         else if list_ex (\<lambda>evalName. funcName = evalName \<or> sublist evalName funcName)
                   EVAL_FUNCTION_NAMES then True
         else if list_ex (\<lambda>pattern. prefix pattern fileName) EVAL_FILENAME_PREFIXES then True
         else if fileName = [] \<and> funcName \<noteq> [] \<and> funcName \<noteq> ''<anonymous>'' then True
         else False)"

definition hasEvalInStack :: "frame list \<Rightarrow> bool" where
  "hasEvalInStack stack = list_ex detectEvalContext stack"

definition isInternalFile :: "path_lib \<Rightarrow> string \<Rightarrow> bool" where
  "isInternalFile lib filePath =
     (let normalized = path_normalize lib filePath;
          sep = [path_sep lib];
          inDotnope = sublist (''node_modules'' @ sep @ ''dotnope'' @ sep) normalized;
          dirName = path_dirname lib normalized
      in if list_ex (\<lambda>internalPath. inDotnope \<and> suffix internalPath normalized) INTERNAL_PATHS
         then True
         else if inDotnope \<and>
                 (suffix (''dotnope'' @ sep @ ''index.js'') normalized \<or>
                  suffix (''dotnope'' @ sep @ ''index.mjs'') normalized)
         then True
         else if suffix (sep @ ''lib'') dirName \<and> \<not> sublist ''node_modules'' normalized \<and>
                 list_ex (\<lambda>p. suffix p normalized) INTERNAL_PATHS \<and>
                 package_json_name lib (path_dirname lib dirName) = Some ''dotnope''
         then True
         else False)"

subsection \<open>The properties of the \<^verbatim>\<open>Error\<close> constructor\<close>

text \<open>
  The values \<^verbatim>\<open>Error.prepareStackTrace\<close> takes: \<^verbatim>\<open>undefined\<close>, the arrow function
  \<^verbatim>\<open>(err, stack) => stack\<close> that the capture routines install, or some other function.
\<close>

datatype stack_hook = Undefined | RawIdentity | OtherHook nat

text \<open>
  The two properties of \<^verbatim>\<open>Error\<close> that the module assigns, each with its \<^verbatim>\<open>writable\<close>
  attribute, and the module's \<^verbatim>\<open>packageCache\<close>.
\<close>

record js_world =
  prepareStackTrace :: stack_hook
  prepareStackTrace_writable :: bool
  stackTraceLimit :: int
  stackTraceLimit_writable :: bool
  packageCache :: "string \<rightharpoonup> string"

text \<open>
  The module is in strict mode (\<^verbatim>\<open>'use strict'\<close>, line 1): an assignment to a property that
  is not writable throws a \<^verbatim>\<open>TypeError\<close> and changes nothing, whatever the value assigned.
\<close>

definition assign_prepareStackTrace ::
  "stack_hook \<Rightarrow> js_world \<Rightarrow> (host_error, unit) completion \<times> js_world" where
  "assign_prepareStackTrace h w =
     (if prepareStackTrace_writable w then (Return (), w\<lparr>prepareStackTrace := h\<rparr>)
      else (Throw TypeError, w))"

definition assign_stackTraceLimit ::
  "int \<Rightarrow> js_world \<Rightarrow> (host_error, unit) completion \<times> js_world" where
  "assign_stackTraceLimit n w =
     (if stackTraceLimit_writable w then (Return (), w\<lparr>stackTraceLimit := n\<rparr>)
      else (Throw TypeError, w))"

text \<open>
  Loading the module (lines 20 to 62, as far as \<^verbatim>\<open>Error.prepareStackTrace\<close> goes): the result
  is the flag \<^verbatim>\<open>tamperingDetected\<close> and the world after the freeze block. When the hook is
  \<^verbatim>\<open>undefined\<close>, \<^verbatim>\<open>Object.defineProperty(Error, 'prepareStackTrace', {value: undefined,
  writable: false, configurable: false})\<close> leaves the value and makes the property
  read-only.
\<close>

definition load_stack_parser :: "js_world \<Rightarrow> bool \<times> js_world" where
  "load_stack_parser w =
     (if prepareStackTrace w \<noteq> Undefined then (True, w)
      else (False, w\<lparr>prepareStackTrace_writable := False\<rparr>))"

text \<open>
  A fresh runtime: no hook, both properties writable, ten frames, an empty cache.
\<close>

definition fresh_runtime :: js_world where
  "fresh_runtime =
     \<lparr>prepareStackTrace = Undefined, prepareStackTrace_writable = True,
      stackTraceLimit = 10, stackTraceLimit_writable = True,
      packageCache = Map.empty\<rparr>"

text \<open>\<^verbatim>\<open>try { body } finally { cleanup }\<close>: a cleanup that throws replaces the outcome.\<close>

definition try_finally ::
  "('x, 'r) completion \<times> 'w \<Rightarrow> ('w \<Rightarrow> ('x, unit) completion \<times> 'w) \<Rightarrow> ('x, 'r) completion \<times> 'w" where
  "try_finally body cleanup =
     (case body of
        (outcome, w) \<Rightarrow>
          (case cleanup w of
             (Throw x, w') \<Rightarrow> (Throw x, w')
           | (Return _, w') \<Rightarrow> (outcome, w')))"

subsection \<open>The fallback backend\<close>

record caller_info =
  packageName :: string
  fileName :: string
  lineNumber :: "nat option"
  columnNumber :: "nat option"
  functionName :: string
  isEval :: bool
  isConstructor :: bool
  isAsync :: bool

text \<open>
  \<^verbatim>\<open>err.stack\<close> after the capture, with the raw identity hook installed: the call sites
  above the routine, at most \<^verbatim>\<open>Error.stackTraceLimit\<close> of them.
\<close>

definition captured_stack :: "js_world \<Rightarrow> frame list \<Rightarrow> frame list" where
  "captured_stack w frames = take (nat (stackTraceLimit w)) frames"

text \<open>The loop of \<^verbatim>\<open>getCallingPackageJS\<close> over the frames from \<^verbatim>\<open>skipFrames\<close> on.\<close>

fun walk_frames ::
  "path_lib \<Rightarrow> bool \<Rightarrow> frame list \<Rightarrow> js_world \<Rightarrow> caller_info option \<times> js_world" where
  "walk_frames lib evalDetectedInStack [] w = (None, w)"
| "walk_frames lib evalDetectedInStack (fr # rest) w =
     (let name = or_default (f_fileName fr) [] in
      if name = [] then walk_frames lib evalDetectedInStack rest w
      else if prefix ''node:'' name \<or> prefix ''internal/'' name
        then walk_frames lib evalDetectedInStack rest w
      else if isInternalFile lib name then walk_frames lib evalDetectedInStack rest w
      else
        (case extractPackageName lib name (packageCache w) of
           (package, cache') \<Rightarrow>
             (Some \<lparr>packageName = package, fileName = name,
                     lineNumber = f_lineNumber fr, columnNumber = f_columnNumber fr,
                     functionName = or_default (f_functionName fr) ''<anonymous>'',
                     isEval = (detectEvalContext fr \<or> evalDetectedInStack),
                     isConstructor = f_isConstructor fr, isAsync = False\<rparr>,
              w\<lparr>packageCache := cache'\<rparr>)))"

text \<open>
  The first two statements of the \<^verbatim>\<open>try\<close> block of both capture routines:
  \<^verbatim>\<open>Error.stackTraceLimit = n; Error.prepareStackTrace = (err, stack) => stack;\<close>
\<close>

definition install_raw_hook :: "int \<Rightarrow> js_world \<Rightarrow> (host_error, unit) completion \<times> js_world" where
  "install_raw_hook n w =
     and_then (assign_stackTraceLimit n w) (\<lambda>w1. assign_prepareStackTrace RawIdentity w1)"

text \<open>
  The \<^verbatim>\<open>finally\<close> block of both:
  \<^verbatim>\<open>Error.prepareStackTrace = savedPrepareStackTrace; Error.stackTraceLimit = savedStackTraceLimit;\<close>
\<close>

definition restore_saved ::
  "stack_hook \<Rightarrow> int \<Rightarrow> js_world \<Rightarrow> (host_error, unit) completion \<times> js_world" where
  "restore_saved savedPrepareStackTrace savedStackTraceLimit w =
     and_then (assign_prepareStackTrace savedPrepareStackTrace w)
       (\<lambda>w1. assign_stackTraceLimit savedStackTraceLimit w1)"

text \<open>
  The rest of the \<^verbatim>\<open>try\<close> block of \<^verbatim>\<open>getCallingPackageJS\<close> (lines 195 to 243); \<open>frames\<close> are
  the call sites above the routine at the time of the call.
\<close>

definition resolve_caller ::
  "path_lib \<Rightarrow> frame list \<Rightarrow> nat \<Rightarrow> js_world \<Rightarrow>
     (host_error, caller_info option) completion \<times> js_world" where
  "resolve_caller lib frames skipFrames w =
     (let stack = captured_stack w frames in
      if stack = [] then (Return None, w)
      else (case walk_frames lib (hasEvalInStack stack) (drop skipFrames stack) w of
              (found, w') \<Rightarrow> (Return found, w')))"

text \<open>\<^verbatim>\<open>getCallingPackageJS(skipFrames)\<close>.\<close>

definition getCallingPackageJS ::
  "path_lib \<Rightarrow> frame list \<Rightarrow> nat \<Rightarrow> js_world \<Rightarrow>
     (host_error, caller_info option) completion \<times> js_world" where
  "getCallingPackageJS lib frames skipFrames w =
     try_finally
       (and_then (install_raw_hook 30 w) (resolve_caller lib frames skipFrames))
       (restore_saved (prepareStackTrace w) (stackTraceLimit w))"

definition format_frame :: "frame \<Rightarrow> string" where
  "format_frame fr =
     ''    at '' @ or_default (f_functionName fr) ''<anonymous>'' @ '' ('' @
     or_default (f_fileName fr) ''<unknown>'' @ '':'' @
     (case f_lineNumber fr of
        None \<Rightarrow> ''?''
      | Some n \<Rightarrow> if n = 0 then ''?'' else string_of_nat n) @ '')''"

text \<open>The rest of the \<^verbatim>\<open>try\<close> block of \<^verbatim>\<open>getFormattedStack\<close> (lines 367 to 382).\<close>

definition format_stack ::
  "frame list \<Rightarrow> nat \<Rightarrow> js_world \<Rightarrow> (host_error, string) completion \<times> js_world" where
  "format_stack frames skipFrames w =
     (Return (join [CHR 0x0A]
        (map format_frame (take 10 (drop skipFrames (captured_stack w frames))))), w)"

definition getFormattedStack ::
  "frame list \<Rightarrow> nat \<Rightarrow> js_world \<Rightarrow> (host_error, string) completion \<times> js_world" where
  "getFormattedStack frames skipFrames w =
     try_finally
       (and_then (install_raw_hook 15 w) (format_stack frames skipFrames))
       (restore_saved (prepareStackTrace w) (stackTraceLimit w))"

subsection \<open>Choosing the backend\<close>

text \<open>
  \<^verbatim>\<open>getCallingPackage(skipFrames)\<close>: the native addon first when
  \<^verbatim>\<open>bridge.isNativeAvailable()\<close>, then the async context it tracks, then
  \<^verbatim>\<open>getCallingPackageJS(skipFrames)\<close>.
\<close>

definition from_native :: "native_caller_info \<Rightarrow> caller_info" where
  "from_native r =
     \<lparr>packageName = n_packageName r, fileName = n_fileName r,
      lineNumber = n_lineNumber r, columnNumber = n_columnNumber r,
      functionName = or_default (n_functionName r) ''<anonymous>'',
      isEval = (n_isEval r = Some True),
      isConstructor = (n_isConstructor r = Some True), isAsync = False\<rparr>"

definition from_async :: "string \<Rightarrow> caller_info" where
  "from_async asyncContext =
     \<lparr>packageName = asyncContext, fileName = ''<async>'',
      lineNumber = Some 0, columnNumber = Some 0, functionName = ''<promise>'',
      isEval = False, isConstructor = False, isAsync = True\<rparr>"

definition getCallingPackage ::
  "addon_files \<Rightarrow> path_lib \<Rightarrow> frame list \<Rightarrow> nat \<Rightarrow> bridge_state \<times> js_world \<Rightarrow>
     (host_error, caller_info option) completion \<times> (bridge_state \<times> js_world)" where
  "getCallingPackage files lib frames skipFrames bw =
     (case bw of
        (b, w) \<Rightarrow>
          (case isNativeAvailable files b of
             (available, b1) \<Rightarrow>
               if available then
                 (case getCallerInfo files (skipFrames + 1) b1 of
                    (Throw x, b2) \<Rightarrow> (Throw x, (b2, w))
                  | (Return (Some nativeResult), b2) \<Rightarrow>
                      (Return (Some (from_native nativeResult)), (b2, w))
                  | (Return None, b2) \<Rightarrow>
                      (case getAsyncContext files b2 of
                         (Throw x, b3) \<Rightarrow> (Throw x, (b3, w))
                       | (Return asyncContext, b3) \<Rightarrow>
                           if or_default asyncContext [] \<noteq> [] \<and>
                              asyncContext \<noteq> Some ''__main__''
                           then (Return (Some (from_async (or_default asyncContext []))), (b3, w))
                           else (case getCallingPackageJS lib frames skipFrames w of
                                   (outcome, w') \<Rightarrow> (outcome, (b3, w')))))
               else (case getCallingPackageJS lib frames skipFrames w of
                       (outcome, w') \<Rightarrow> (outcome, (b1, w')))))"


subsection \<open>What the rest of a \<^verbatim>\<open>try\<close> block leaves alone\<close>

text \<open>
  A block that returns and assigns neither \<^verbatim>\<open>Error.prepareStackTrace\<close> nor
  \<^verbatim>\<open>Error.stackTraceLimit\<close>, nor changes their attributes.
\<close>

definition keeps_error_props ::
  "(js_world \<Rightarrow> (host_error, 'r) completion \<times> js_world) \<Rightarrow> bool" where
  "keeps_error_props body =
     (\<forall>w. (\<exists>r. fst (body w) = Return r) \<and>
          prepareStackTrace (snd (body w)) = prepareStackTrace w \<and>
          prepareStackTrace_writable (snd (body w)) = prepareStackTrace_writable w \<and>
          stackTraceLimit (snd (body w)) = stackTraceLimit w \<and>
          stackTraceLimit_writable (snd (body w)) = stackTraceLimit_writable w)"

subsection \<open>Concrete stacks\<close>

text \<open>A stack whose first frame outside the runtime belongs to a dependency.\<close>

definition sample_frames :: "frame list" where
  "sample_frames =
     [\<lparr>f_fileName = Some ''node:internal/process'', f_lineNumber = Some 7,
       f_columnNumber = Some 1, f_functionName = None, f_isEval = False,
       f_evalOrigin = None, f_isConstructor = False\<rparr>,
      \<lparr>f_fileName = Some ''/app/node_modules/sketchy/index.js'', f_lineNumber = Some 12,
       f_columnNumber = Some 5, f_functionName = Some ''track'', f_isEval = False,
       f_evalOrigin = None, f_isConstructor = False\<rparr>,
      \<lparr>f_fileName = Some ''/app/main.js'', f_lineNumber = Some 3,
       f_columnNumber = Some 1, f_functionName = None, f_isEval = False,
       f_evalOrigin = None, f_isConstructor = False\<rparr>]"


section \<open>Properties of the policy generation\<close>

lemma set_set_add: "set (set_add v acc) = insert v (set acc)"
  by (auto simp: set_add_def)

lemma distinct_set_add: "distinct acc \<Longrightarrow> distinct (set_add v acc)"
  by (simp add: set_add_def)

lemma collect_vars_None: "collect_vars vs acc = None \<longleftrightarrow> ''*'' \<in> set vs"
  by (induction vs arbitrary: acc) auto

lemma collect_vars_Some:
  "collect_vars vs acc = Some r \<Longrightarrow> set r = set acc \<union> set vs \<and> (distinct acc \<longrightarrow> distinct r)"
  by (induction vs arbitrary: acc) (auto simp: set_set_add distinct_set_add split: if_splits)

lemma scan_field_None: "scan_field f acc = None \<longleftrightarrow> ''*'' \<in> set (or_empty f)"
  by (auto simp: scan_field_def or_empty_def collect_vars_None split: option.splits)

lemma scan_field_Some:
  "scan_field f acc = Some r \<Longrightarrow> set r = set acc \<union> set (or_empty f) \<and> (distinct acc \<longrightarrow> distinct r)"
  by (auto simp: scan_field_def or_empty_def dest: collect_vars_Some split: option.splits)

lemma policy_vars_Nil: "policy_vars [] = []"
  by (simp add: policy_vars_def package_entries_def)

lemma policy_vars_Cons:
  "policy_vars ((n, pc) # rest) =
     (if n = ''__options__'' then policy_vars rest
      else or_empty (allowed pc) @ or_empty (canWrite pc) @ policy_vars rest)"
  by (simp add: policy_vars_def package_entries_def)

lemma loop_None:
  "generatePolicy_loop config acc = None \<longleftrightarrow> ''*'' \<in> set (policy_vars config)"
proof (induction config arbitrary: acc)
  case Nil
  show ?case by (simp add: policy_vars_Nil)
next
  case (Cons e rest)
  obtain n pc where e: "e = (n, pc)" by (cases e)
  show ?case
  proof (cases "scan_field (allowed pc) acc")
    case None
    then have "''*'' \<in> set (or_empty (allowed pc))" by (simp add: scan_field_None)
    with None show ?thesis by (simp add: e policy_vars_Cons Cons.IH)
  next
    case a1: (Some acc1)
    then have n1: "''*'' \<notin> set (or_empty (allowed pc))"
      using scan_field_None[of "allowed pc" acc] by simp
    show ?thesis
    proof (cases "scan_field (canWrite pc) acc1")
      case None
      then have "''*'' \<in> set (or_empty (canWrite pc))" by (simp add: scan_field_None)
      with None a1 show ?thesis by (simp add: e policy_vars_Cons Cons.IH)
    next
      case (Some acc2)
      then have "''*'' \<notin> set (or_empty (canWrite pc))"
        using scan_field_None[of "canWrite pc" acc1] by simp
      with Some a1 n1 show ?thesis by (simp add: e policy_vars_Cons Cons.IH)
    qed
  qed
qed

lemma loop_Some:
  "generatePolicy_loop config acc = Some r \<Longrightarrow>
     set r = set acc \<union> set (policy_vars config) \<and> (distinct acc \<longrightarrow> distinct r)"
proof (induction config arbitrary: acc r)
  case Nil
  then show ?case by (simp add: policy_vars_Nil)
next
  case (Cons e rest)
  obtain n pc where e: "e = (n, pc)" by (cases e)
  show ?case
  proof (cases "n = ''__options__''")
    case True
    with Cons.prems e have "generatePolicy_loop rest acc = Some r" by simp
    from Cons.IH[OF this] show ?thesis using True e by (simp add: policy_vars_Cons)
  next
    case False
    from Cons.prems e False obtain a1 a2 where
      s1: "scan_field (allowed pc) acc = Some a1" and
      s2: "scan_field (canWrite pc) a1 = Some a2" and
      s3: "generatePolicy_loop rest a2 = Some r"
      unfolding e by (auto split: option.splits)
    from scan_field_Some[OF s1] scan_field_Some[OF s2] Cons.IH[OF s3] show ?thesis
      using False e by (auto simp: policy_vars_Cons)
  qed
qed

lemma sort_distinct_eq:
  fixes xs ys :: "string list"
  assumes "set xs = set ys" "distinct xs" "distinct ys"
  shows "sort xs = sort ys"
  using assms by (intro sorted_distinct_set_unique) simp_all

lemma generatePolicy_characterised:
  "generatePolicy config =
     (if ''*'' \<in> set (policy_vars config) then ''*''
      else join '','' (sort (remdups (policy_vars config))))"
proof (cases "generatePolicy_loop config []")
  case None
  then show ?thesis using loop_None[of config "[]"] by (simp add: generatePolicy_def)
next
  case (Some r)
  then have nw: "''*'' \<notin> set (policy_vars config)" using loop_None[of config "[]"] by simp
  from loop_Some[OF Some] have "set r = set (remdups (policy_vars config))" "distinct r" by simp_all
  then have "sort r = sort (remdups (policy_vars config))"
    by (intro sort_distinct_eq) simp_all
  with Some nw show ?thesis by (simp add: generatePolicy_def)
qed

lemma policy_vars_set_mset:
  "mset c1 = mset c2 \<Longrightarrow> set (policy_vars c1) = set (policy_vars c2)"
proof -
  assume "mset c1 = mset c2"
  then have "set c1 = set c2" by (rule mset_eq_setD)
  then show ?thesis by (auto simp: policy_vars_def package_entries_def)
qed

lemma perm_policy:
  assumes "mset c1 = mset c2"
  shows "generatePolicy c1 = generatePolicy c2"
proof -
  have s: "set (policy_vars c1) = set (policy_vars c2)" using assms by (rule policy_vars_set_mset)
  then have "sort (remdups (policy_vars c1)) = sort (remdups (policy_vars c2))"
    by (intro sort_distinct_eq) simp_all
  with s show ?thesis by (simp add: generatePolicy_characterised)
qed


text \<open>
  C1 (as amended). For every configuration, the policy string that \<open>generatePolicy\<close>
  produces is determined by the \<^verbatim>\<open>allowed\<close> and \<^verbatim>\<open>canWrite\<close> sets of the package entries
  (the \<^verbatim>\<open>__options__\<close> entry is no package): it is \<^verbatim>\<open>*\<close> when the sentinel is in one of
  these sets, and otherwise it is the comma-separated list, sorted and without
  repetition, of the union of these sets. The \<^verbatim>\<open>canDelete\<close> sets are not read.
\<close>

theorem generatePolicy_allow_set:
  "generatePolicy config =
     (if ''*'' \<in> set (policy_vars config) then ''*''
      else join '','' (sort (remdups (policy_vars config))))"
  by (rule generatePolicy_characterised)

theorem generatePolicy_allow_set_witness:
  "generatePolicy scenario6_config = ''X,Y,Z'' \<and>
   policy_vars scenario6_config = [''X'', ''Y'', ''Z'']"
  using generatePolicy_allow_set [of scenario6_config]
  by (simp add: scenario6_config_def policy_vars_def package_entries_def or_empty_def)

text \<open>
  C1 as stated fails: a variable that a package may only delete (and so, by the
  specification, read) is not in the produced allow-set, and the sentinel in a
  \<^verbatim>\<open>canDelete\<close> set does not produce \<^verbatim>\<open>*\<close>.
\<close>

theorem generatePolicy_misses_canDelete:
  "generatePolicy delete_only_config = ''X'' \<and>
   claimed_policy delete_only_config = ''V,X'' \<and>
   generatePolicy delete_wildcard_config = ''X'' \<and>
   claimed_policy delete_wildcard_config = ''*''"
  by (simp add: delete_only_config_def delete_wildcard_config_def generatePolicy_def
      claimed_policy_def readable_vars_def package_entries_def or_empty_def scan_field_def
      set_add_def)

text \<open>
  C6. \<open>generatePolicy\<close> is order-independent: a configuration whose entries are a
  permutation of another's produces the same policy string, and an output other than the
  wildcard is the comma-separated list of a sorted, repetition-free list of the
  configuration's variables.
\<close>

theorem generatePolicy_order_independent:
  assumes "mset config' = mset config"
  shows "generatePolicy config' = generatePolicy config \<and>
         (generatePolicy config = ''*'' \<or>
          (\<exists>vars. sorted vars \<and> distinct vars \<and> set vars = set (policy_vars config) \<and>
                  generatePolicy config = join '','' vars))"
proof
  show "generatePolicy config' = generatePolicy config"
    using assms by (rule perm_policy)
next
  show "generatePolicy config = ''*'' \<or>
        (\<exists>vars. sorted vars \<and> distinct vars \<and> set vars = set (policy_vars config) \<and>
                generatePolicy config = join '','' vars)"
  proof (cases "''*'' \<in> set (policy_vars config)")
    case True
    then show ?thesis by (simp add: generatePolicy_characterised)
  next
    case False
    let ?vars = "sort (remdups (policy_vars config))"
    have "sorted ?vars" "distinct ?vars" "set ?vars = set (policy_vars config)" by simp_all
    moreover have "generatePolicy config = join '','' ?vars"
      using False by (simp add: generatePolicy_characterised)
    ultimately show ?thesis by blast
  qed
qed

theorem generatePolicy_order_independent_witness:
  "mset (rev scenario6_config) = mset scenario6_config \<and>
   generatePolicy (rev scenario6_config) = generatePolicy scenario6_config \<and>
   generatePolicy (rev scenario6_config) = ''X,Y,Z''"
  using generatePolicy_order_independent [of "rev scenario6_config" scenario6_config]
  by (simp add: scenario6_config_def generatePolicy_def scan_field_def set_add_def)


section \<open>Properties of the runtime mediator\<close>

lemma options_present_initial: "options_present initial_proxy_state"
  by (simp add: options_present_def initial_proxy_state_def)

lemma options_present_createEnvProxy:
  "createEnvProxy f opts t s = Return s' \<Longrightarrow> options_present s'"
  by (auto simp: createEnvProxy_def options_present_def split: if_splits)

lemma options_present_steps:
  "options_present s \<Longrightarrow> options_present (enable s)"
  "options_present s \<Longrightarrow> options_present (disable s)"
  "options_present s \<Longrightarrow> options_present (setFilterKeysFn g s)"
  "options_present s \<Longrightarrow> options_present (restore s)"
  by (auto simp: options_present_def enable_def disable_def setFilterKeysFn_def restore_def
      split: option.splits)

lemma option_guard_symbol:
  "options_present s \<Longrightarrow> option_guard s protect operation (Sym n) w = (Return (), w)"
  by (auto simp: option_guard_def options_present_def split: option.splits if_splits)

lemma read_guard_symbol: "read_guard s (Sym n) w = (Return (), w)"
  by (simp add: read_guard_def split: option.splits)

text \<open>
  C8. For a symbol key, the read, write, membership, deletion and descriptor-query traps
  return what the operation on the target returns and change the target as that operation
  does; the check function is not called (its state and the history of its calls are as
  before). This holds in every module state in which \<open>checkAccessFn\<close> is not set without
  \<open>proxyOptions\<close>, which is every state the module's functions reach.
\<close>

theorem symbol_keys_bypass_check:
  assumes "options_present s"
  shows "trap_get s (Sym n) w = (Return (target_get (store w) (Sym n)), w) \<and>
         trap_set s (Sym n) v w = (Return True, w\<lparr>store := target_set (store w) (Sym n) v\<rparr>) \<and>
         trap_has s (Sym n) w = (Return (target_has (store w) (Sym n)), w) \<and>
         trap_deleteProperty s (Sym n) w =
           (Return True, w\<lparr>store := target_delete (store w) (Sym n)\<rparr>) \<and>
         trap_getOwnPropertyDescriptor s (Sym n) w =
           (Return (target_getOwnPropertyDescriptor (store w) (Sym n)), w) \<and>
         check_log (snd (trap_set s (Sym n) v w)) = check_log w \<and>
         check_log (snd (trap_deleteProperty s (Sym n) w)) = check_log w"
  using assms
  by (simp add: trap_get_def trap_set_def trap_has_def trap_deleteProperty_def
      trap_getOwnPropertyDescriptor_def option_guard_symbol read_guard_symbol and_then_def)

lemma enforcing_simps:
  "isEnabled (enforcing f)" "checkAccessFn (enforcing f) = Some f"
  "proxyOptions (enforcing f) =
     Some \<lparr>protectWrites = True, protectDeletes = True, protectEnumeration = True\<rparr>"
  by (simp_all add: enforcing_def createEnvProxy_def initial_proxy_state_def enable_def
      default_options_def not_false_def)

lemma options_present_enforcing: "options_present (enforcing f)"
  by (simp add: options_present_def enforcing_simps)

theorem symbol_keys_bypass_check_witness:
  "options_present (enforcing deny_all) \<and>
   trap_get (enforcing deny_all) (Sym 0) sample_world = (Return (Some ''tag''), sample_world) \<and>
   trap_has (enforcing deny_all) (Sym 0) sample_world = (Return True, sample_world) \<and>
   fst (trap_set (enforcing deny_all) (Sym 0) ''new'' sample_world) = Return True \<and>
   store (snd (trap_set (enforcing deny_all) (Sym 0) ''new'' sample_world)) (Sym 0) = Some ''new'' \<and>
   check_log (snd (trap_set (enforcing deny_all) (Sym 0) ''new'' sample_world)) = [] \<and>
   fst (trap_deleteProperty (enforcing deny_all) (Sym 0) sample_world) = Return True \<and>
   store (snd (trap_deleteProperty (enforcing deny_all) (Sym 0) sample_world)) (Sym 0) = None \<and>
   check_log (snd (trap_deleteProperty (enforcing deny_all) (Sym 0) sample_world)) = []"
  using symbol_keys_bypass_check [OF options_present_enforcing, of deny_all 0 sample_world "''new''"]
  by (simp add: options_present_enforcing sample_world_def target_get_def target_has_def
      target_set_def target_delete_def)

lemma call_check_store: "store (snd (call_check f name operation w)) = store w"
  by (simp add: call_check_def split: prod.splits)

lemma call_check_log:
  "check_log (snd (call_check f name operation w)) = check_log w @ [(name, operation)]"
  by (simp add: call_check_def split: prod.splits)

lemma option_guard_store: "store (snd (option_guard s protect operation p w)) = store w"
  by (simp add: option_guard_def call_check_store split: option.splits property_key.splits)

lemma option_guard_raised:
  "fst (option_guard s protect operation (Str name) w) = Throw (Raised e) \<Longrightarrow>
     check_log (snd (option_guard s protect operation (Str name) w)) =
       check_log w @ [(name, operation)]"
  by (auto simp: option_guard_def call_check_log split: option.splits if_splits)

lemma and_then_throw:
  assumes "fst (and_then first rest) = Throw x" and "\<And>w. \<exists>r. fst (rest w) = Return r"
  shows "fst first = Throw x \<and> snd (and_then first rest) = snd first"
proof (cases first)
  case (Pair c w)
  show ?thesis
  proof (cases c)
    case (Throw y)
    with Pair assms(1) show ?thesis by (simp add: and_then_def)
  next
    case (Return u)
    with Pair assms(1) have "fst (rest w) = Throw x" by (simp add: and_then_def)
    with assms(2)[of w] show ?thesis by simp
  qed
qed

text \<open>
  C2. When the \<^verbatim>\<open>set\<close> or the \<^verbatim>\<open>deleteProperty\<close> trap is called with a string key and the
  check function raises, the target is what it was before the call, and the last thing
  done was that call of the check function: nothing is applied in part.
\<close>

theorem denial_leaves_store_untouched:
  "(fst (trap_set s (Str name) v w) = Throw (Raised e) \<longrightarrow>
      store (snd (trap_set s (Str name) v w)) = store w \<and>
      check_log (snd (trap_set s (Str name) v w)) = check_log w @ [(name, Write)]) \<and>
   (fst (trap_deleteProperty s (Str name) w) = Throw (Raised e') \<longrightarrow>
      store (snd (trap_deleteProperty s (Str name) w)) = store w \<and>
      check_log (snd (trap_deleteProperty s (Str name) w)) = check_log w @ [(name, Delete)])"
proof (intro conjI impI)
  assume "fst (trap_set s (Str name) v w) = Throw (Raised e)"
  then have th: "fst (option_guard s protectWrites Write (Str name) w) = Throw (Raised e)"
    and eq: "snd (trap_set s (Str name) v w) = snd (option_guard s protectWrites Write (Str name) w)"
    unfolding trap_set_def by (auto dest!: and_then_throw)
  show "store (snd (trap_set s (Str name) v w)) = store w"
    by (simp add: eq option_guard_store)
  show "check_log (snd (trap_set s (Str name) v w)) = check_log w @ [(name, Write)]"
    using th by (simp add: eq option_guard_raised)
next
  assume "fst (trap_deleteProperty s (Str name) w) = Throw (Raised e')"
  then have th: "fst (option_guard s protectDeletes Delete (Str name) w) = Throw (Raised e')"
    and eq: "snd (trap_deleteProperty s (Str name) w) =
             snd (option_guard s protectDeletes Delete (Str name) w)"
    unfolding trap_deleteProperty_def by (auto dest!: and_then_throw)
  show "store (snd (trap_deleteProperty s (Str name) w)) = store w"
    by (simp add: eq option_guard_store)
  show "check_log (snd (trap_deleteProperty s (Str name) w)) = check_log w @ [(name, Delete)]"
    using th by (simp add: eq option_guard_raised)
qed

lemma option_guard_enforcing:
  "option_guard (enforcing f) protectWrites operation (Str name) w = call_check f name operation w"
  "option_guard (enforcing f) protectDeletes operation (Str name) w = call_check f name operation w"
  by (simp_all add: option_guard_def enforcing_simps)

theorem denial_leaves_store_untouched_witness:
  "fst (trap_set (enforcing deny_all) (Str ''SECRET'') ''y'' sample_world) = Throw (Raised ''SECRET'') \<and>
   store (snd (trap_set (enforcing deny_all) (Str ''SECRET'') ''y'' sample_world)) = store sample_world \<and>
   fst (trap_deleteProperty (enforcing deny_all) (Str ''SECRET'') sample_world) = Throw (Raised ''SECRET'') \<and>
   store (snd (trap_deleteProperty (enforcing deny_all) (Str ''SECRET'') sample_world)) = store sample_world \<and>
   fst (trap_set (enforcing allow_all) (Str ''SECRET'') ''y'' sample_world) = Return True \<and>
   store (snd (trap_set (enforcing allow_all) (Str ''SECRET'') ''y'' sample_world)) (Str ''SECRET'') = Some ''y''"
proof -
  have a: "fst (trap_set (enforcing deny_all) (Str ''SECRET'') ''y'' sample_world) = Throw (Raised ''SECRET'')"
    by (simp add: trap_set_def option_guard_enforcing call_check_def deny_all_def and_then_def)
  have b: "fst (trap_deleteProperty (enforcing deny_all) (Str ''SECRET'') sample_world) = Throw (Raised ''SECRET'')"
    by (simp add: trap_deleteProperty_def option_guard_enforcing call_check_def deny_all_def and_then_def)
  have c: "fst (trap_set (enforcing allow_all) (Str ''SECRET'') ''y'' sample_world) = Return True"
    "store (snd (trap_set (enforcing allow_all) (Str ''SECRET'') ''y'' sample_world)) (Str ''SECRET'') = Some ''y''"
    by (simp_all add: trap_set_def option_guard_enforcing call_check_def allow_all_def and_then_def
        target_set_def)
  from a b c
    denial_leaves_store_untouched [of "enforcing deny_all" "''SECRET''" "''y''" sample_world
      "''SECRET''" "''SECRET''"]
  show ?thesis by simp
qed

text \<open>
  C9. With enforcement enabled, a check function installed and \<open>protectWrites\<close> true, the
  \<^verbatim>\<open>defineProperty\<close> trap on a string key calls the check function with this key and
  \<^verbatim>\<open>'write'\<close>; if the check raises, the property is not defined, and otherwise it is
  defined after the check.
\<close>

theorem defineProperty_checked_as_write:
  assumes "isEnabled s" and "checkAccessFn s = Some f" and "proxyOptions s = Some opts"
    and "protectWrites opts"
  shows "trap_defineProperty s (Str name) d w =
     (case f name Write (checker w) of
        (Some e, c') \<Rightarrow>
          (Throw (Raised e), w\<lparr>checker := c', check_log := check_log w @ [(name, Write)]\<rparr>)
      | (None, c') \<Rightarrow>
          (Return True,
           w\<lparr>checker := c', check_log := check_log w @ [(name, Write)],
             store := target_defineProperty (store w) (Str name) d\<rparr>))"
  using assms
  by (simp add: trap_defineProperty_def option_guard_def call_check_def and_then_def
      split: prod.splits option.splits)

theorem defineProperty_checked_as_write_witness:
  "isEnabled (enforcing deny_all) \<and> checkAccessFn (enforcing deny_all) = Some deny_all \<and>
   fst (trap_defineProperty (enforcing deny_all) (Str ''SECRET'') sample_descriptor sample_world) =
     Throw (Raised ''SECRET'') \<and>
   check_log (snd (trap_defineProperty (enforcing deny_all) (Str ''SECRET'') sample_descriptor
     sample_world)) = [(''SECRET'', Write)] \<and>
   store (snd (trap_defineProperty (enforcing deny_all) (Str ''SECRET'') sample_descriptor
     sample_world)) (Str ''SECRET'') = Some ''x'' \<and>
   fst (trap_defineProperty (enforcing allow_all) (Str ''SECRET'') sample_descriptor sample_world) =
     Return True \<and>
   check_log (snd (trap_defineProperty (enforcing allow_all) (Str ''SECRET'') sample_descriptor
     sample_world)) = [(''SECRET'', Write)] \<and>
   store (snd (trap_defineProperty (enforcing allow_all) (Str ''SECRET'') sample_descriptor
     sample_world)) (Str ''SECRET'') = Some ''y''"
  using defineProperty_checked_as_write [OF enforcing_simps(1) enforcing_simps(2) enforcing_simps(3),
      of deny_all "''SECRET''" sample_descriptor sample_world]
    defineProperty_checked_as_write [OF enforcing_simps(1) enforcing_simps(2) enforcing_simps(3),
      of allow_all "''SECRET''" sample_descriptor sample_world]
  by (simp add: enforcing_simps deny_all_def allow_all_def sample_world_def sample_descriptor_def
      target_defineProperty_def)




section \<open>Properties of the native bridge\<close>

lemma loadNativeAddon_refused: "refused b \<Longrightarrow> loadNativeAddon files b = (False, b)"
  by (simp add: loadNativeAddon_def refused_def)

lemma isNativeAvailable_refused: "refused b \<Longrightarrow> isNativeAvailable files b = (False, b)"
  by (simp add: isNativeAvailable_def loadNativeAddon_refused) (simp add: refused_def)

lemma asked_again_refused: "refused b \<Longrightarrow> asked_again later b = b"
  by (induction later) (simp_all add: isNativeAvailable_refused)

lemma getCallingPackage_refused:
  "refused b \<Longrightarrow>
     getCallingPackage files lib frames skipFrames (b, w) =
       (fst (getCallingPackageJS lib frames skipFrames w),
        (b, snd (getCallingPackageJS lib frames skipFrames w)))"
  by (simp add: getCallingPackage_def isNativeAvailable_refused case_prod_beta)

lemma verify_mismatch:
  assumes "manifest_exists files"
    and "manifest_content files = Inr doc" and "m_addon doc = Some entry"
    and "addon_content files = Inr addonBuffer"
    and "digest_hex files (algorithm_or_default (m_algorithm entry)) addonBuffer = Inr actualHash"
    and "m_hash entry \<noteq> Some actualHash \<or>
         (addon_size files = Inr actualSize \<and> m_size entry \<noteq> Some actualSize)"
  shows "verifyAddonIntegrity files =
           \<lparr>verified = False, warning = None,
            error = Some (if m_hash entry \<noteq> Some actualHash
                          then hash_mismatch_error (m_hash entry) actualHash
                          else size_mismatch_error (m_size entry) actualSize)\<rparr>"
  using assms by (auto simp: verifyAddonIntegrity_def)

lemma string_of_nat_4: "string_of_nat 4 = ''4''"
  by code_simp

lemma string_of_nat_5: "string_of_nat 5 = ''5''"
  by code_simp

lemma mismatch_error_code:
  "e_code (hash_mismatch_error expected actualHash) = None"
  "e_code (size_mismatch_error expected' actualSize) = None"
  by (simp_all add: hash_mismatch_error_def size_mismatch_error_def new_Error_def)

text \<open>
  C3 (as amended). On the first load attempt, with the addon file and the manifest
  present and readable and the digest of the addon file computed with the manifest's
  algorithm: if the digest is not the manifest's hash, or it is and the file's size is
  read and is not the manifest's size, the addon is refused. It is not loaded (\<open>native\<close>
  stays \<^verbatim>\<open>null\<close>), \<open>loadNativeAddon\<close> and \<open>isNativeAvailable\<close> return false, and the status
  reports the refusal as \<^verbatim>\<open>hasIntegrityError: true\<close> with the message of the integrity
  error as \<^verbatim>\<open>initializationError\<close>; the error has no code. Later calls of
  \<open>isNativeAvailable\<close> change nothing and return false whatever the files have become,
  and \<open>getCallingPackage\<close> returns what the JavaScript fallback \<open>getCallingPackageJS\<close>
  returns.
\<close>

theorem integrity_mismatch_refuses:
  assumes "native b = None" and "initializationError b = None"
    and "addon_exists files" and "manifest_exists files"
    and "manifest_content files = Inr doc" and "m_addon doc = Some entry"
    and "addon_content files = Inr addonBuffer"
    and "digest_hex files (algorithm_or_default (m_algorithm entry)) addonBuffer = Inr actualHash"
    and "m_hash entry \<noteq> Some actualHash \<or>
         (addon_size files = Inr actualSize \<and> m_size entry \<noteq> Some actualSize)"
    and "e = (if m_hash entry \<noteq> Some actualHash
              then hash_mismatch_error (m_hash entry) actualHash
              else size_mismatch_error (m_size entry) actualSize)"
    and "b' = b\<lparr>integrityVerified := False, integrityError := Some e,
                 initializationError := Some e, nativeAvailable := False\<rparr>"
  shows "loadNativeAddon files b = (False, b') \<and>
         isNativeAvailable files b = (False, b') \<and>
         native b' = None \<and>
         getIntegrityError b' = Some e \<and>
         e_code e = None \<and>
         getSecurityStatus b' =
           \<lparr>status_nativeAvailable = False, status_integrityVerified = False,
            status_hasIntegrityError = True,
            status_initializationError = Some (e_message e)\<rparr> \<and>
         asked_again later b' = b' \<and>
         isNativeAvailable files' b' = (False, b') \<and>
         getCallingPackage files' lib frames skipFrames (b', w) =
           (fst (getCallingPackageJS lib frames skipFrames w),
            (b', snd (getCallingPackageJS lib frames skipFrames w)))"
proof -
  have v: "verifyAddonIntegrity files = \<lparr>verified = False, warning = None, error = Some e\<rparr>"
    using verify_mismatch[OF assms(4-9)] assms(10) by simp
  have l: "loadNativeAddon files b = (False, b')"
    using assms(1-3) assms(11) by (simp add: loadNativeAddon_def v)
  have r: "refused b'"
    using assms(1) assms(11) by (simp add: refused_def)
  have n: "native b' = None" using r by (simp add: refused_def)
  have i: "isNativeAvailable files b = (False, b')"
    using assms(1) l r by (simp add: isNativeAvailable_def refused_def)
  have s: "getSecurityStatus b' =
           \<lparr>status_nativeAvailable = False, status_integrityVerified = False,
            status_hasIntegrityError = True,
            status_initializationError = Some (e_message e)\<rparr>"
    using assms(11) by (simp add: getSecurityStatus_def)
  have g: "getIntegrityError b' = Some e"
    using assms(11) by (simp add: getIntegrityError_def)
  have c: "e_code e = None"
    using assms(10) by (simp add: mismatch_error_code)
  show ?thesis
    using l i n g c s asked_again_refused[OF r] isNativeAvailable_refused[OF r]
      getCallingPackage_refused[OF r]
    by simp
qed

lemma tampered_facts:
  "native initial_bridge_state = None" "initializationError initial_bridge_state = None"
  "addon_exists tampered_files" "manifest_exists tampered_files"
  "manifest_content tampered_files =
     Inr \<lparr>m_addon = Some \<lparr>m_hash = Some ''h:good'', m_algorithm = None, m_size = Some 4\<rparr>\<rparr>"
  "addon_content tampered_files = Inr ''evil''"
  "digest_hex tampered_files
     (algorithm_or_default (m_algorithm \<lparr>m_hash = Some ''h:good'', m_algorithm = None, m_size = Some 4\<rparr>))
     ''evil'' = Inr ''h:evil''"
  by (simp_all add: initial_bridge_state_def tampered_files_def toy_digest_def
      algorithm_or_default_def)

lemma resized_facts:
  "addon_exists resized_files" "manifest_exists resized_files"
  "manifest_content resized_files =
     Inr \<lparr>m_addon = Some \<lparr>m_hash = Some ''h:good'', m_algorithm = None, m_size = Some 4\<rparr>\<rparr>"
  "addon_content resized_files = Inr ''good''"
  "digest_hex resized_files
     (algorithm_or_default (m_algorithm \<lparr>m_hash = Some ''h:good'', m_algorithm = None, m_size = Some 4\<rparr>))
     ''good'' = Inr ''h:good''"
  "addon_size resized_files = Inr 5"
  by (simp_all add: resized_files_def tampered_files_def toy_digest_def algorithm_or_default_def)

theorem integrity_mismatch_refuses_witness:
  "isNativeAvailable tampered_files initial_bridge_state =
     (False,
      initial_bridge_state\<lparr>integrityVerified := False,
        integrityError := Some (hash_mismatch_error (Some ''h:good'') ''h:evil''),
        initializationError := Some (hash_mismatch_error (Some ''h:good'') ''h:evil''),
        nativeAvailable := False\<rparr>) \<and>
   getSecurityStatus (snd (isNativeAvailable tampered_files initial_bridge_state)) =
     \<lparr>status_nativeAvailable = False, status_integrityVerified = False,
      status_hasIntegrityError = True,
      status_initializationError =
        Some (''Native addon integrity check failed!'' @ [CHR 0x0A] @
              ''Expected: h:good'' @ [CHR 0x0A] @ ''Got: h:evil'' @ [CHR 0x0A] @
              ''The addon may have been tampered with or rebuilt.'')\<rparr> \<and>
   fst (getCallingPackage tampered_files posix_paths sample_frames 0
         (snd (isNativeAvailable tampered_files initial_bridge_state), fresh_runtime)) =
     fst (getCallingPackageJS posix_paths sample_frames 0 fresh_runtime) \<and>
   isNativeAvailable resized_files initial_bridge_state =
     (False,
      initial_bridge_state\<lparr>integrityVerified := False,
        integrityError := Some (size_mismatch_error (Some 4) 5),
        initializationError := Some (size_mismatch_error (Some 4) 5),
        nativeAvailable := False\<rparr>) \<and>
   e_message (size_mismatch_error (Some 4) 5) =
     ''Native addon size mismatch!'' @ [CHR 0x0A] @ ''Expected: 4 bytes'' @ [CHR 0x0A] @
     ''Got: 5 bytes''"
  using integrity_mismatch_refuses [OF tampered_facts(1) tampered_facts(2) tampered_facts(3)
      tampered_facts(4) tampered_facts(5) _ tampered_facts(6) tampered_facts(7) _ refl refl,
      of 0 "[]" tampered_files posix_paths sample_frames 0 fresh_runtime]
    integrity_mismatch_refuses [OF tampered_facts(1) tampered_facts(2) resized_facts(1)
      resized_facts(2) resized_facts(3) _ resized_facts(4) resized_facts(5) _ refl refl,
      of 5 "[]" tampered_files posix_paths sample_frames 0 fresh_runtime]
  by (simp add: resized_facts hash_mismatch_error_def size_mismatch_error_def new_Error_def
      template_text_def template_number_def string_of_nat_4 string_of_nat_5)

text \<open>
  C3 as stated fails in two ways. A file whose size is not the manifest's is loaded all
  the same when the digest cannot be computed (the manifest names an algorithm the
  hashing library does not know): the verifier's \<^verbatim>\<open>catch\<close> makes it a warning, the addon
  is loaded, \<open>isNativeAvailable\<close> returns true and \<open>getCallingPackage\<close> returns the
  native result, not the fallback's. And on a hash mismatch the status holds a flag and
  a message: the error has no code, and \<^verbatim>\<open>ERR_DOTNOPE_INTEGRITY\<close> is nowhere in it.
\<close>

theorem integrity_claim_counterexample:
  "addon_size unsupported_algorithm_files = Inr 5 \<and>
   manifest_content unsupported_algorithm_files =
     Inr \<lparr>m_addon = Some \<lparr>m_hash = Some ''h:good'', m_algorithm = Some ''md999'',
                           m_size = Some 4\<rparr>\<rparr> \<and>
   warning (verifyAddonIntegrity unsupported_algorithm_files) =
     Some ''Could not verify addon integrity: Digest method not supported'' \<and>
   error (verifyAddonIntegrity unsupported_algorithm_files) = None \<and>
   fst (isNativeAvailable unsupported_algorithm_files initial_bridge_state) = True \<and>
   native (snd (isNativeAvailable unsupported_algorithm_files initial_bridge_state)) =
     Some sample_addon \<and>
   status_hasIntegrityError (getSecurityStatus
     (snd (isNativeAvailable unsupported_algorithm_files initial_bridge_state))) = False \<and>
   fst (getCallingPackage unsupported_algorithm_files posix_paths sample_frames 0
          (snd (isNativeAvailable unsupported_algorithm_files initial_bridge_state),
           fresh_runtime)) =
     Return (Some \<lparr>packageName = ''from-native'', fileName = ''/app/x.js'',
                    lineNumber = Some 1, columnNumber = Some 1,
                    functionName = ''<anonymous>'', isEval = False, isConstructor = False,
                    isAsync = False\<rparr>) \<and>
   map_option e_code (getIntegrityError
     (snd (isNativeAvailable tampered_files initial_bridge_state))) = Some None \<and>
   status_initializationError (getSecurityStatus
     (snd (isNativeAvailable tampered_files initial_bridge_state))) \<noteq>
     Some ''ERR_DOTNOPE_INTEGRITY''"
proof -
  let ?u = "unsupported_algorithm_files"
  have v: "verifyAddonIntegrity ?u = warning_only ''Digest method not supported''"
    by (simp add: verifyAddonIntegrity_def unsupported_algorithm_files_def resized_files_def
        tampered_files_def toy_digest_def algorithm_or_default_def)
  have f: "addon_exists ?u" "require_addon ?u = Inr sample_addon"
    "addon_initialize sample_addon = None"
    by (simp_all add: unsupported_algorithm_files_def resized_files_def tampered_files_def
        sample_addon_def)
  have l: "loadNativeAddon ?u initial_bridge_state =
           (True, initial_bridge_state\<lparr>integrityVerified := False, native := Some sample_addon,
                                        nativeAvailable := True\<rparr>)"
    by (simp add: loadNativeAddon_def v warning_only_def f) (simp add: initial_bridge_state_def)
  have i: "isNativeAvailable ?u initial_bridge_state =
           (True, initial_bridge_state\<lparr>integrityVerified := False, native := Some sample_addon,
                                        nativeAvailable := True\<rparr>)"
    by (simp add: isNativeAvailable_def l) (simp add: initial_bridge_state_def)
  let ?b = "initial_bridge_state\<lparr>integrityVerified := False, native := Some sample_addon,
                                   nativeAvailable := True\<rparr>"
  have a: "isNativeAvailable ?u ?b = (True, ?b)"
    by (simp add: isNativeAvailable_def)
  have g: "fst (getCallingPackage ?u posix_paths sample_frames 0 (?b, fresh_runtime)) =
           Return (Some \<lparr>packageName = ''from-native'', fileName = ''/app/x.js'',
                    lineNumber = Some 1, columnNumber = Some 1,
                    functionName = ''<anonymous>'', isEval = False, isConstructor = False,
                    isAsync = False\<rparr>)"
  proof -
    have ci: "getCallerInfo ?u k ?b = (Return (addon_getCallerInfo sample_addon k), ?b)" for k
      by (simp add: getCallerInfo_def a)
    have r: "addon_getCallerInfo sample_addon k =
             Some \<lparr>n_packageName = ''from-native'', n_fileName = ''/app/x.js'',
                    n_lineNumber = Some 1, n_columnNumber = Some 1,
                    n_functionName = None, n_isEval = None, n_isConstructor = None\<rparr>" for k
      by (simp add: sample_addon_def)
    show ?thesis
      by (simp add: getCallingPackage_def a ci r from_native_def or_default_def)
  qed
  have t: "isNativeAvailable tampered_files initial_bridge_state =
           (False,
            initial_bridge_state\<lparr>integrityVerified := False,
              integrityError := Some (hash_mismatch_error (Some ''h:good'') ''h:evil''),
              initializationError := Some (hash_mismatch_error (Some ''h:good'') ''h:evil''),
              nativeAvailable := False\<rparr>)"
    by (simp add: isNativeAvailable_def loadNativeAddon_def verifyAddonIntegrity_def
        tampered_files_def toy_digest_def algorithm_or_default_def initial_bridge_state_def)
  have c1: "addon_size ?u = Inr 5"
    and c2: "manifest_content ?u =
             Inr \<lparr>m_addon = Some \<lparr>m_hash = Some ''h:good'', m_algorithm = Some ''md999'',
                                   m_size = Some 4\<rparr>\<rparr>"
    by (simp_all add: unsupported_algorithm_files_def resized_files_def tampered_files_def)
  have c3: "warning (verifyAddonIntegrity ?u) =
            Some ''Could not verify addon integrity: Digest method not supported''"
    and c4: "error (verifyAddonIntegrity ?u) = None"
    by (simp_all add: v warning_only_def)
  have c5: "fst (isNativeAvailable ?u initial_bridge_state) = True"
    and c6: "native (snd (isNativeAvailable ?u initial_bridge_state)) = Some sample_addon"
    and c7: "status_hasIntegrityError (getSecurityStatus
               (snd (isNativeAvailable ?u initial_bridge_state))) = False"
    unfolding i by (simp_all add: getSecurityStatus_def initial_bridge_state_def)
  have c8: "fst (getCallingPackage ?u posix_paths sample_frames 0
                  (snd (isNativeAvailable ?u initial_bridge_state), fresh_runtime)) =
            Return (Some \<lparr>packageName = ''from-native'', fileName = ''/app/x.js'',
                    lineNumber = Some 1, columnNumber = Some 1,
                    functionName = ''<anonymous>'', isEval = False, isConstructor = False,
                    isAsync = False\<rparr>)"
    using g by (simp only: i snd_conv)
  have c9: "map_option e_code (getIntegrityError
              (snd (isNativeAvailable tampered_files initial_bridge_state))) = Some None"
    by (simp add: t getIntegrityError_def mismatch_error_code)
  have c10: "status_initializationError (getSecurityStatus
               (snd (isNativeAvailable tampered_files initial_bridge_state))) \<noteq>
             Some ''ERR_DOTNOPE_INTEGRITY''"
    by (simp add: t getSecurityStatus_def hash_mismatch_error_def new_Error_def)
  from c1 c2 c3 c4 c5 c6 c7 c8 c9 c10 show ?thesis by (intro conjI)
qed






section \<open>Properties of the caller identification\<close>

subsection \<open>Package names\<close>

lemma occurs_at_iff:
  "occurs_at s t i \<longleftrightarrow> (\<exists>pre post. s = pre @ t @ post \<and> length pre = i)"
proof
  assume o: "occurs_at s t i"
  then have "drop i s = t @ drop (length t) (drop i s)"
    unfolding occurs_at_def by (metis append_take_drop_id)
  then have "s = take i s @ t @ drop (length t) (drop i s)"
    by (metis append_take_drop_id)
  moreover have "length (take i s) = i" using o by (simp add: occurs_at_def)
  ultimately show "\<exists>pre post. s = pre @ t @ post \<and> length pre = i"
    by blast
next
  assume "\<exists>pre post. s = pre @ t @ post \<and> length pre = i"
  then show "occurs_at s t i" by (auto simp: occurs_at_def)
qed

lemma occurs_at_bound: "occurs_at s t i \<Longrightarrow> i \<le> length s"
  by (simp add: occurs_at_def)

lemma last_index_from_None:
  "last_index_from s t n = None \<longleftrightarrow> (\<forall>j\<le>n. \<not> occurs_at s t j)"
  by (induction n) (auto simp: le_Suc_eq)

lemma last_index_from_Some:
  "last_index_from s t n = Some i \<Longrightarrow>
     i \<le> n \<and> occurs_at s t i \<and> (\<forall>j. i < j \<and> j \<le> n \<longrightarrow> \<not> occurs_at s t j)"
  by (induction n) (auto simp: le_Suc_eq split: if_splits)

lemma lastIndexOf_None: "lastIndexOf s t = None \<longleftrightarrow> \<not> sublist t s"
proof -
  have "(\<forall>j\<le>length s. \<not> occurs_at s t j) \<longleftrightarrow> (\<forall>j. \<not> occurs_at s t j)"
    using occurs_at_bound by blast
  then show ?thesis
    unfolding lastIndexOf_def last_index_from_None sublist_def occurs_at_iff by blast
qed

lemma lastIndexOf_Some:
  assumes "lastIndexOf s t = Some i"
  shows "occurs_at s t i" and "occurs_at s t j \<Longrightarrow> j \<le> i"
proof -
  from last_index_from_Some[OF assms[unfolded lastIndexOf_def]]
  have a: "occurs_at s t i" and b: "\<forall>j. i < j \<and> j \<le> length s \<longrightarrow> \<not> occurs_at s t j"
    by simp_all
  show "occurs_at s t i" by (rule a)
  show "occurs_at s t j \<Longrightarrow> j \<le> i"
    using b occurs_at_bound[of s t j] by (meson not_le)
qed

lemma lastIndexOf_last:
  assumes "s = pre @ t @ post"
    and "\<And>pre' post'. s = pre' @ t @ post' \<Longrightarrow> length pre' \<le> length pre"
  shows "lastIndexOf s t = Some (length pre)"
proof (cases "lastIndexOf s t")
  case None
  then have "\<not> sublist t s" by (simp add: lastIndexOf_None)
  with assms(1) show ?thesis by (auto simp: sublist_def)
next
  case (Some i)
  have o: "occurs_at s t (length pre)" using assms(1) by (auto simp: occurs_at_iff)
  from lastIndexOf_Some(2)[OF Some o] have le: "length pre \<le> i" .
  from lastIndexOf_Some(1)[OF Some] obtain pre' post' where
    "s = pre' @ t @ post'" "length pre' = i" by (auto simp: occurs_at_iff)
  with assms(2) have "i \<le> length pre" by blast
  with le Some show ?thesis by simp
qed

lemma split_unfold:
  "split c s =
     takeWhile (\<lambda>x. x \<noteq> c) s #
       (case dropWhile (\<lambda>x. x \<noteq> c) s of [] \<Rightarrow> [] | _ # rest \<Rightarrow> split c rest)"
proof (induction s)
  case Nil
  show ?case by simp
next
  case (Cons x xs)
  show ?case
  proof (cases "x = c")
    case True
    then show ?thesis by simp
  next
    case False
    then show ?thesis by (subst split.simps) (simp add: Cons.IH)
  qed
qed

lemma element_text_split_0: "element_text (split c s) 0 = first_component c s"
  by (subst split_unfold) (simp add: element_text_def first_component_def)

lemma element_text_split_1:
  "element_text (split c s) 1 =
     (case second_component c s of None \<Rightarrow> ''undefined'' | Some name \<Rightarrow> name)"
proof (cases "dropWhile (\<lambda>x. x \<noteq> c) s")
  case Nil
  have "split c s = [takeWhile (\<lambda>x. x \<noteq> c) s]"
    by (subst split_unfold) (simp only: Nil list.case)
  moreover have "second_component c s = None"
    by (simp only: second_component_def Nil list.case)
  ultimately show ?thesis by (simp add: element_text_def)
next
  case (Cons y rest)
  have ne: "split c rest \<noteq> []" by (subst split_unfold) simp
  have "element_text (split c rest) 0 = first_component c rest"
    by (rule element_text_split_0)
  with ne have h: "split c rest ! 0 = first_component c rest"
    by (simp add: element_text_def)
  have sp: "split c s = takeWhile (\<lambda>x. x \<noteq> c) s # split c rest"
    by (subst split_unfold) (simp only: Cons list.case)
  have sc: "second_component c s = Some (first_component c rest)"
    by (simp only: second_component_def Cons list.case)
  show ?thesis
    using ne h by (simp add: sp sc element_text_def)
qed

lemma computePackageName_main:
  "\<not> sublist (node_modules_marker lib) (path_normalize lib filePath) \<Longrightarrow>
     computePackageName lib filePath = ''__main__''"
  by (simp add: computePackageName_def lastIndexOf_None[symmetric])

lemma computePackageName_package:
  assumes "path_normalize lib filePath = pre @ node_modules_marker lib @ post"
    and "\<And>pre' post'. path_normalize lib filePath = pre' @ node_modules_marker lib @ post' \<Longrightarrow>
           length pre' \<le> length pre"
  shows "computePackageName lib filePath =
     (if prefix ''@'' (first_component (path_sep lib) post)
      then first_component (path_sep lib) post @ ''/'' @
           (case second_component (path_sep lib) post of
              None \<Rightarrow> ''undefined'' | Some name \<Rightarrow> name)
      else first_component (path_sep lib) post)"
proof -
  have l: "lastIndexOf (path_normalize lib filePath) (node_modules_marker lib) = Some (length pre)"
    using assms by (rule lastIndexOf_last)
  have d: "drop (length pre + length (node_modules_marker lib)) (path_normalize lib filePath) = post"
    by (simp add: assms(1))
  show ?thesis
    unfolding computePackageName_def Let_def l d option.case
    by (simp only: element_text_split_0 element_text_split_1)
qed

lemma extractPackageName_computed:
  "cache_sound lib cache \<Longrightarrow>
     fst (extractPackageName lib filePath cache) = computePackageName lib filePath"
  unfolding cache_sound_def extractPackageName_def
  by (metis (mono_tags, lifting) fst_conv option.case_eq_if option.distinct(1) option.sel)

lemma cache_sound_empty: "cache_sound lib Map.empty"
  by (simp add: cache_sound_def)

lemma cache_sound_extract:
  "cache_sound lib cache \<Longrightarrow> cache_sound lib (snd (extractPackageName lib filePath cache))"
  by (auto simp: cache_sound_def extractPackageName_def split: option.splits)

text \<open>
  C5. For every file path, with the path as \<^verbatim>\<open>path.normalize\<close> returns it: if it has no
  segment \<^verbatim>\<open>/node_modules/\<close> (with the platform's separator), the identity is
  \<^verbatim>\<open>__main__\<close>; if it has one, then with \<open>post\<close> what follows the last such segment, the
  package name is the first component of \<open>post\<close>, and when this component begins with
  \<^verbatim>\<open>@\<close> it is joined by \<^verbatim>\<open>/\<close> with the component after it (a missing one prints as
  \<^verbatim>\<open>undefined\<close>). The cache returns the same names, since it holds only names computed so.
\<close>

theorem extractPackageName_identity:
  assumes "cache_sound lib cache"
  shows "(\<not> sublist (node_modules_marker lib) (path_normalize lib filePath) \<longrightarrow>
            fst (extractPackageName lib filePath cache) = ''__main__'') \<and>
         (\<forall>pre post.
            path_normalize lib filePath = pre @ node_modules_marker lib @ post \<and>
            (\<forall>pre' post'. path_normalize lib filePath = pre' @ node_modules_marker lib @ post' \<longrightarrow>
                length pre' \<le> length pre) \<longrightarrow>
            fst (extractPackageName lib filePath cache) =
              (if prefix ''@'' (first_component (path_sep lib) post)
               then first_component (path_sep lib) post @ ''/'' @
                    (case second_component (path_sep lib) post of
                       None \<Rightarrow> ''undefined'' | Some name \<Rightarrow> name)
               else first_component (path_sep lib) post))"
  using assms computePackageName_main computePackageName_package
  by (simp add: extractPackageName_computed)

lemma occurrence_before_last:
  assumes "lastIndexOf s t = Some i" and "s = pre' @ t @ post'"
  shows "length pre' \<le> i"
proof -
  have "occurs_at s t (length pre')" using assms(2) by (auto simp: occurs_at_iff)
  then show ?thesis by (rule lastIndexOf_Some(2)[OF assms(1)])
qed

lemma posix_marker: "node_modules_marker posix_paths = ''/node_modules/''"
  by (simp add: node_modules_marker_def posix_paths_def)

lemma posix_normalize: "path_normalize posix_paths p = p"
  by (simp add: posix_paths_def)

lemma posix_sep: "path_sep posix_paths = CHR ''/''"
  by (simp add: posix_paths_def)

theorem extractPackageName_identity_witness:
  "fst (extractPackageName posix_paths ''/app/node_modules/@babel/core/lib/index.js'' Map.empty) =
     ''@babel/core'' \<and>
   fst (extractPackageName posix_paths ''/app/node_modules/a/node_modules/b/x.js'' Map.empty) =
     ''b'' \<and>
   fst (extractPackageName posix_paths ''/app/src/main.js'' Map.empty) = ''__main__''"
proof -
  let ?p1 = "''/app/node_modules/@babel/core/lib/index.js''"
  let ?p2 = "''/app/node_modules/a/node_modules/b/x.js''"
  let ?p3 = "''/app/src/main.js''"
  have l1: "lastIndexOf ?p1 ''/node_modules/'' = Some 4" by code_simp
  have d1: "?p1 = ''/app'' @ ''/node_modules/'' @ ''@babel/core/lib/index.js''" by simp
  have m1: "\<forall>pre' post'. ?p1 = pre' @ ''/node_modules/'' @ post' \<longrightarrow> length pre' \<le> length ''/app''"
  proof (intro allI impI)
    fix pre' post' assume "?p1 = pre' @ ''/node_modules/'' @ post'"
    from occurrence_before_last[OF l1 this] show "length pre' \<le> length ''/app''" by simp
  qed
  have l2: "lastIndexOf ?p2 ''/node_modules/'' = Some 19" by code_simp
  have d2: "?p2 = ''/app/node_modules/a'' @ ''/node_modules/'' @ ''b/x.js''" by simp
  have m2: "\<forall>pre' post'. ?p2 = pre' @ ''/node_modules/'' @ post' \<longrightarrow>
              length pre' \<le> length ''/app/node_modules/a''"
  proof (intro allI impI)
    fix pre' post' assume "?p2 = pre' @ ''/node_modules/'' @ post'"
    from occurrence_before_last[OF l2 this] show "length pre' \<le> length ''/app/node_modules/a''"
      by simp
  qed
  have l3: "lastIndexOf ?p3 ''/node_modules/'' = None" by code_simp
  have n3: "\<not> sublist ''/node_modules/'' ?p3"
    using l3 by (rule iffD1 [OF lastIndexOf_None])
  note t1 = extractPackageName_identity [OF cache_sound_empty, of posix_paths ?p1,
      unfolded posix_marker posix_normalize posix_sep, THEN conjunct2, rule_format,
      of "''/app''" "''@babel/core/lib/index.js''"]
  note t2 = extractPackageName_identity [OF cache_sound_empty, of posix_paths ?p2,
      unfolded posix_marker posix_normalize posix_sep, THEN conjunct2, rule_format,
      of "''/app/node_modules/a''" "''b/x.js''"]
  note t3 = extractPackageName_identity [OF cache_sound_empty, of posix_paths ?p3,
      unfolded posix_marker posix_normalize posix_sep, THEN conjunct1, rule_format]
  have f1: "first_component CHR ''/'' ''@babel/core/lib/index.js'' = ''@babel''"
    "second_component CHR ''/'' ''@babel/core/lib/index.js'' = Some ''core''"
    "first_component CHR ''/'' ''b/x.js'' = ''b''"
    by (simp_all add: first_component_def second_component_def)
  have r1: "fst (extractPackageName posix_paths ?p1 Map.empty) = ''@babel/core''"
    using t1 [OF conjI [OF d1 m1]] unfolding f1 by simp
  have r2: "fst (extractPackageName posix_paths ?p2 Map.empty) = ''b''"
    using t2 [OF conjI [OF d2 m2]] unfolding f1 by simp
  have r3: "fst (extractPackageName posix_paths ?p3 Map.empty) = ''__main__''"
    using n3 by (rule t3)
  from r1 r2 r3 show ?thesis by simp
qed


subsection \<open>The capture routines and the properties of \<^verbatim>\<open>Error\<close>\<close>

lemma walk_frames_error_props:
  "prepareStackTrace (snd (walk_frames lib ev frs w)) = prepareStackTrace w \<and>
   prepareStackTrace_writable (snd (walk_frames lib ev frs w)) = prepareStackTrace_writable w \<and>
   stackTraceLimit (snd (walk_frames lib ev frs w)) = stackTraceLimit w \<and>
   stackTraceLimit_writable (snd (walk_frames lib ev frs w)) = stackTraceLimit_writable w"
  by (induction frs) (simp_all add: Let_def split: prod.splits)

lemma resolve_caller_returns: "\<exists>r. fst (resolve_caller lib frames k w) = Return r"
  by (simp add: resolve_caller_def Let_def split: prod.splits)

lemma resolve_caller_error_props:
  "prepareStackTrace (snd (resolve_caller lib frames k w)) = prepareStackTrace w \<and>
   prepareStackTrace_writable (snd (resolve_caller lib frames k w)) = prepareStackTrace_writable w \<and>
   stackTraceLimit (snd (resolve_caller lib frames k w)) = stackTraceLimit w \<and>
   stackTraceLimit_writable (snd (resolve_caller lib frames k w)) = stackTraceLimit_writable w"
proof (cases "captured_stack w frames = []")
  case True
  then show ?thesis by (simp add: resolve_caller_def)
next
  case False
  have "snd (resolve_caller lib frames k w) =
        snd (walk_frames lib (hasEvalInStack (captured_stack w frames))
               (drop k (captured_stack w frames)) w)"
    using False by (simp add: resolve_caller_def Let_def split: prod.splits)
  then show ?thesis by (simp add: walk_frames_error_props)
qed

lemma format_stack_snd: "snd (format_stack frames k w) = w"
  by (simp add: format_stack_def)

lemma capture_frozen_hook:
  assumes "\<not> prepareStackTrace_writable w" and "stackTraceLimit_writable w"
  shows "try_finally (and_then (install_raw_hook n w) body)
           (restore_saved (prepareStackTrace w) (stackTraceLimit w)) =
         (Throw TypeError, w\<lparr>stackTraceLimit := n\<rparr>)"
  using assms
  by (simp add: try_finally_def and_then_def install_raw_hook_def restore_saved_def
      assign_stackTraceLimit_def assign_prepareStackTrace_def)

lemma capture_frozen_limit:
  assumes "\<not> stackTraceLimit_writable w"
  shows "try_finally (and_then (install_raw_hook n w) body)
           (restore_saved (prepareStackTrace w) (stackTraceLimit w)) =
         (Throw TypeError, w)"
  using assms
  by (simp add: try_finally_def and_then_def install_raw_hook_def restore_saved_def
      assign_stackTraceLimit_def assign_prepareStackTrace_def)

lemma capture_writable:
  assumes "prepareStackTrace_writable w" and "stackTraceLimit_writable w"
    and "keeps_error_props body"
  shows "try_finally (and_then (install_raw_hook n w) body)
           (restore_saved (prepareStackTrace w) (stackTraceLimit w)) =
         (fst (body (w\<lparr>stackTraceLimit := n, prepareStackTrace := RawIdentity\<rparr>)),
          (snd (body (w\<lparr>stackTraceLimit := n, prepareStackTrace := RawIdentity\<rparr>)))
            \<lparr>prepareStackTrace := prepareStackTrace w, stackTraceLimit := stackTraceLimit w\<rparr>)"
proof -
  let ?w2 = "w\<lparr>stackTraceLimit := n, prepareStackTrace := RawIdentity\<rparr>"
  obtain out w3 where b: "body ?w2 = (out, w3)" by (cases "body ?w2")
  have "prepareStackTrace_writable (snd (body ?w2)) = prepareStackTrace_writable ?w2"
    "stackTraceLimit_writable (snd (body ?w2)) = stackTraceLimit_writable ?w2"
    using assms(3) unfolding keeps_error_props_def by blast+
  then have k: "prepareStackTrace_writable w3" "stackTraceLimit_writable w3"
    using assms(1,2) b by simp_all
  have i: "and_then (install_raw_hook n w) body = (out, w3)"
    using assms(1,2) b
    by (simp add: and_then_def install_raw_hook_def assign_stackTraceLimit_def
        assign_prepareStackTrace_def)
  have c: "restore_saved (prepareStackTrace w) (stackTraceLimit w) w3 =
           (Return (), w3\<lparr>prepareStackTrace := prepareStackTrace w,
                           stackTraceLimit := stackTraceLimit w\<rparr>)"
    using k by (simp add: restore_saved_def and_then_def assign_stackTraceLimit_def
        assign_prepareStackTrace_def)
  show ?thesis
    unfolding i by (simp add: try_finally_def c b)
qed

lemma resolve_caller_keeps: "keeps_error_props (resolve_caller lib frames k)"
  unfolding keeps_error_props_def
  using resolve_caller_returns resolve_caller_error_props by blast

lemma format_stack_keeps: "keeps_error_props (format_stack frames k)"
  by (simp add: keeps_error_props_def format_stack_def)

text \<open>
  Where both properties are writable, both are restored; and the raw identity hook is
  never left installed, in any state.
\<close>

lemma capture_restores_when_writable:
  assumes "prepareStackTrace_writable w" and "stackTraceLimit_writable w"
  shows "prepareStackTrace (snd (getCallingPackageJS lib frames k w)) = prepareStackTrace w \<and>
         stackTraceLimit (snd (getCallingPackageJS lib frames k w)) = stackTraceLimit w \<and>
         prepareStackTrace (snd (getFormattedStack frames k w)) = prepareStackTrace w \<and>
         stackTraceLimit (snd (getFormattedStack frames k w)) = stackTraceLimit w"
  unfolding getCallingPackageJS_def getFormattedStack_def
  by (simp add: capture_writable[OF assms resolve_caller_keeps]
      capture_writable[OF assms format_stack_keeps])

lemma capture_never_leaves_hook:
  "prepareStackTrace (snd (getCallingPackageJS lib frames k w)) = prepareStackTrace w \<and>
   prepareStackTrace (snd (getFormattedStack frames k w)) = prepareStackTrace w"
proof (cases "stackTraceLimit_writable w")
  case False
  then show ?thesis
    unfolding getCallingPackageJS_def getFormattedStack_def
    by (simp add: capture_frozen_limit)
next
  case lim: True
  show ?thesis
  proof (cases "prepareStackTrace_writable w")
    case True
    with lim capture_restores_when_writable show ?thesis by blast
  next
    case False
    with lim show ?thesis
      unfolding getCallingPackageJS_def getFormattedStack_def
      by (simp add: capture_frozen_hook)
  qed
qed

text \<open>
  C4, where it fails. When \<^verbatim>\<open>Error.prepareStackTrace\<close> is read-only, as the module's own
  freeze block leaves it on a runtime that had no hook, and \<^verbatim>\<open>Error.stackTraceLimit\<close> is
  writable, both capture routines throw a \<^verbatim>\<open>TypeError\<close> and leave
  \<^verbatim>\<open>Error.stackTraceLimit\<close> at the value they set (30 and 15): the first statement of the
  \<^verbatim>\<open>finally\<close> block throws as the assignment in the \<^verbatim>\<open>try\<close> block did, and the statement
  that restores the limit is not reached.
\<close>

theorem capture_with_frozen_hook:
  assumes "\<not> prepareStackTrace_writable w" and "stackTraceLimit_writable w"
  shows "getCallingPackageJS lib frames k w = (Throw TypeError, w\<lparr>stackTraceLimit := 30\<rparr>) \<and>
         getFormattedStack frames k w = (Throw TypeError, w\<lparr>stackTraceLimit := 15\<rparr>)"
  unfolding getCallingPackageJS_def getFormattedStack_def
  using assms by (simp add: capture_frozen_hook)

theorem capture_with_frozen_hook_witness:
  "load_stack_parser fresh_runtime = (False, fresh_runtime\<lparr>prepareStackTrace_writable := False\<rparr>) \<and>
   stackTraceLimit (fresh_runtime\<lparr>prepareStackTrace_writable := False\<rparr>) = 10 \<and>
   fst (getCallingPackageJS posix_paths sample_frames 0
         (fresh_runtime\<lparr>prepareStackTrace_writable := False\<rparr>)) = Throw TypeError \<and>
   stackTraceLimit (snd (getCallingPackageJS posix_paths sample_frames 0
         (fresh_runtime\<lparr>prepareStackTrace_writable := False\<rparr>))) = 30 \<and>
   fst (getFormattedStack sample_frames 0
         (fresh_runtime\<lparr>prepareStackTrace_writable := False\<rparr>)) = Throw TypeError \<and>
   stackTraceLimit (snd (getFormattedStack sample_frames 0
         (fresh_runtime\<lparr>prepareStackTrace_writable := False\<rparr>))) = 15"
proof -
  have a: "\<not> prepareStackTrace_writable (fresh_runtime\<lparr>prepareStackTrace_writable := False\<rparr>)"
    "stackTraceLimit_writable (fresh_runtime\<lparr>prepareStackTrace_writable := False\<rparr>)"
    by (simp_all add: fresh_runtime_def)
  have l: "load_stack_parser fresh_runtime =
           (False, fresh_runtime\<lparr>prepareStackTrace_writable := False\<rparr>)"
    by (simp add: load_stack_parser_def fresh_runtime_def)
  from capture_with_frozen_hook [OF a, of posix_paths sample_frames 0] l
  show ?thesis by (simp add: fresh_runtime_def)
qed

end
